theory Spec2Isabelle
  imports Complex_Main "HOL-Library.Multiset" "HOL-Library.Product_Lexorder"
begin

section \<open>Shared data: errors, shapes, dense arrays\<close>

text \<open>
  Exceptions of the Python sources are values of \<open>error\<close>; a function that may raise
  returns \<open>error + 'a\<close> with \<open>Inl\<close> for the exception. Integers are Python/NumPy
  integers inside the \<open>int32\<close> range, modelled as \<open>int\<close>; shapes, strides and crop
  shapes are the three-element sequences (axis0, axis1, depth) of the sources.
  \<open>DifferentDepths\<close> is the \<open>ValueError\<close> that \<open>Horizon.__sub__\<close> raises itself
  ("Horizons have different depths where present."); \<open>ValueError\<close> is any other one.
\<close>

datatype error = ValueError | DifferentDepths | TypeError | IndexError | ZeroDivisionError | RecursionError
  | UnboundLocalError | AttributeError

type_synonym vec3 = "int \<times> int \<times> int"

type_synonym ranges3 = "(int \<times> int) \<times> (int \<times> int) \<times> (int \<times> int)"

definition swap01 :: "vec3 \<Rightarrow> vec3" where
  \<comment> \<open>\<open>v[[1, 0, 2]]\<close>\<close>
  "swap01 v = (case v of (a, b, c) \<Rightarrow> (b, a, c))"

definition slice_bound :: "nat \<Rightarrow> int \<Rightarrow> nat" where
  \<comment> \<open>how Python normalises one bound of \<open>a[lo:hi]\<close> on a sequence of length \<open>n\<close>\<close>
  "slice_bound n k = (if k < 0 then nat (max 0 (k + int n)) else min (nat k) n)"

definition py_slice :: "int \<Rightarrow> int \<Rightarrow> 'a list \<Rightarrow> 'a list" where
  \<comment> \<open>\<open>xs[a:b]\<close>\<close>
  "py_slice a b xs =
     (let n = length xs; lo = slice_bound n a; hi = slice_bound n b
      in take (hi - lo) (drop lo xs))"

definition slice2 :: "int \<Rightarrow> int \<Rightarrow> int \<Rightarrow> int \<Rightarrow> 'a list list \<Rightarrow> 'a list list" where
  \<comment> \<open>\<open>m[i0:i1, x0:x1]\<close> on a two-dimensional array stored as a list of rows\<close>
  "slice2 i0 i1 x0 x1 m = map (py_slice x0 x1) (py_slice i0 i1 m)"

definition size2 :: "'a list list \<Rightarrow> int" where
  \<comment> \<open>\<open>m.size\<close>\<close>
  "size2 m = int (sum_list (map length m))"

definition sum2 :: "bool list list \<Rightarrow> int" where
  \<comment> \<open>\<open>m.sum()\<close> of a boolean array: the number of True cells\<close>
  "sum2 m = int (sum_list (map (\<lambda>r. length (filter id r)) m))"

record seismic_field =
  field_shape :: vec3
  cube_shape :: vec3
  field_depth :: int
  zero_traces :: "bool list list"


section \<open>grids.py: RegularGrid\<close>

record crop_location =
  field_id :: int
  label_id :: int
  orientation :: int
  i_start :: int
  x_start :: int
  h_start :: int
  i_stop :: int
  x_stop :: int
  h_stop :: int

datatype overlap_factor_arg = Factor int | Factors vec3

record regular_grid =
  rg_ranges :: ranges3
  rg_origin :: vec3
  rg_endpoint :: vec3
  rg_shape :: vec3
  rg_strides :: vec3
  rg_threshold :: rat
  rg_field_id :: int
  rg_label_id :: int
  rg_orientation :: int
  rg_crop_shape :: vec3
  rg_batch_size :: nat
  rg_unfiltered_length :: nat
  rg_locations :: "crop_location list"

definition np_arange :: "int \<Rightarrow> int \<Rightarrow> int \<Rightarrow> error + int list" where
  \<comment> \<open>\<open>np.arange(start, stop, stride, dtype=np.int32)\<close>: a zero step raises\<close>
  "np_arange start stop stride =
     (if stride = 0 then Inl ZeroDivisionError
      else Inr (map (\<lambda>k. start + int k * stride) [0 ..< nat (- ((start - stop) div stride))]))"

definition np_clip :: "int \<Rightarrow> int \<Rightarrow> int \<Rightarrow> int" where
  \<comment> \<open>\<open>np.clip(v, lo, hi)\<close> is \<open>minimum(hi, maximum(v, lo))\<close>\<close>
  "np_clip lo hi v = min hi (max v lo)"

definition arange_clipped :: "int \<Rightarrow> int \<Rightarrow> int \<Rightarrow> int \<Rightarrow> error + int list" where
  \<comment> \<open>\<open>RegularGrid._arange\<close>: arange, clip to \<open>[0, limit]\<close>, unique, sort\<close>
  "arange_clipped start stop stride limit =
     (case np_arange start stop stride of
        Inl e \<Rightarrow> Inl e
      | Inr grid \<Rightarrow> Inr (sort (remdups (map (np_clip 0 limit) grid))))"

definition alive_traces :: "bool list list \<Rightarrow> vec3 \<Rightarrow> int \<Rightarrow> int \<Rightarrow> int" where
  \<comment> \<open>\<open>sliced.size - sliced.sum()\<close> for \<open>sliced = zero_traces[i:i+c0, x:x+c1]\<close>\<close>
  "alive_traces zt cs i x =
     (case cs of (c0, c1, c2) \<Rightarrow>
        (let sliced = slice2 i (i + c0) x (x + c1) zt in size2 sliced - sum2 sliced))"

definition grid_points :: "bool list list \<Rightarrow> vec3 \<Rightarrow> rat \<Rightarrow> int list \<Rightarrow> int list \<Rightarrow> int list \<Rightarrow> vec3 list" where
  \<comment> \<open>the loop over \<open>product(i_grid, x_grid)\<close> that collects the crop origins\<close>
  "grid_points zt cs thr i_grid x_grid h_grid =
     concat (map (\<lambda>(i, x). if of_int (alive_traces zt cs i x) > thr
                             then map (\<lambda>h. (i, x, h)) h_grid else [])
                 (List.product i_grid x_grid))"

definition make_location :: "int \<Rightarrow> int \<Rightarrow> int \<Rightarrow> vec3 \<Rightarrow> vec3 \<Rightarrow> crop_location" where
  \<comment> \<open>one row of the \<open>(N, 9)\<close> buffer: ids, orientation, origin, origin + crop shape\<close>
  "make_location fid lid ori cs p =
     (case (cs, p) of ((c0, c1, c2), (i, x, h)) \<Rightarrow>
        \<lparr> field_id = fid, label_id = lid, orientation = ori,
          i_start = i, x_start = x, h_start = h,
          i_stop = i + c0, x_stop = x + c1, h_stop = h + c2 \<rparr>)"

definition RegularGrid_make_locations :: "seismic_field \<Rightarrow> regular_grid \<Rightarrow> error + regular_grid" where
  \<comment> \<open>\<open>RegularGrid._make_locations\<close>. Assigning the empty one-dimensional array of
      origins into the \<open>(0, 3)\<close> block of the buffer cannot be broadcast and raises.\<close>
  "RegularGrid_make_locations fld g =
     (case (rg_ranges g, rg_strides g, cube_shape fld, rg_crop_shape g) of
        (((i0, i1), (x0, x1), (h0, h1)), (s0, s1, s2), (n0, n1, n2), (c0, c1, c2)) \<Rightarrow>
     (case arange_clipped i0 i1 s0 (n0 - c0) of Inl e \<Rightarrow> Inl e | Inr i_grid \<Rightarrow>
     (case arange_clipped x0 x1 s1 (n1 - c1) of Inl e \<Rightarrow> Inl e | Inr x_grid \<Rightarrow>
     (case arange_clipped h0 h1 s2 (n2 - c2) of Inl e \<Rightarrow> Inl e | Inr h_grid \<Rightarrow>
       (let points = grid_points (zero_traces fld) (rg_crop_shape g) (rg_threshold g) i_grid x_grid h_grid
        in if points = [] then Inl ValueError
           else Inr (g \<lparr> rg_unfiltered_length := length i_grid * length x_grid * length h_grid,
                         rg_locations := map (make_location (rg_field_id g) (rg_label_id g)
                                                 (rg_orientation g) (rg_crop_shape g)) points \<rparr>))))))"

definition count_given :: "vec3 option \<Rightarrow> vec3 option \<Rightarrow> overlap_factor_arg option \<Rightarrow> nat" where
  \<comment> \<open>\<open>(strides is not None) + (overlap is not None) + (overlap_factor is not None)\<close>\<close>
  "count_given a b c = (if a = None then 0 else 1) + (if b = None then 0 else 1) + (if c = None then 0 else 1)"

definition py_int :: "rat \<Rightarrow> int" where
  \<comment> \<open>\<open>int(q)\<close> truncates towards zero\<close>
  "py_int q = (if q < 0 then \<lceil>q\<rceil> else \<lfloor>q\<rfloor>)"

definition resolve_strides :: "vec3 \<Rightarrow> vec3 option \<Rightarrow> vec3 option \<Rightarrow> overlap_factor_arg option \<Rightarrow> error + vec3" where
  \<comment> \<open>the stride policy of \<open>RegularGrid.__init__\<close>, after the conflict check\<close>
  "resolve_strides cs strides overlap overlap_factor =
     (case cs of (c0, c1, c2) \<Rightarrow>
      (case strides of
         Some s \<Rightarrow> Inr s
       | None \<Rightarrow>
          (case overlap of
             Some (o0, o1, o2) \<Rightarrow> Inr (c0 - o0, c1 - o1, c2 - o2)
           | None \<Rightarrow>
              (case map_option (\<lambda>f. case f of Factor k \<Rightarrow> (k, k, k) | Factors v \<Rightarrow> v) overlap_factor of
                 Some (f0, f1, f2) \<Rightarrow>
                   if f0 = 0 \<or> f1 = 0 \<or> f2 = 0 then Inl ZeroDivisionError
                   else Inr (max 1 (c0 div f0), max 1 (c1 div f1), max 1 (c2 div f2))
               | None \<Rightarrow> Inr cs))))"

definition RegularGrid_init ::
  "seismic_field \<Rightarrow> ranges3 \<Rightarrow> vec3 \<Rightarrow> int \<Rightarrow> vec3 option \<Rightarrow> vec3 option \<Rightarrow>
   overlap_factor_arg option \<Rightarrow> rat \<Rightarrow> nat \<Rightarrow> int \<Rightarrow> int \<Rightarrow> crop_location list option \<Rightarrow>
   error + regular_grid" where
  \<comment> \<open>\<open>RegularGrid.__init__\<close> with \<open>ranges\<close> already made by \<open>make_ranges\<close> and
      \<open>orientation\<close> already parsed to 0 or 1. A fractional threshold is an exact
      rational here (a float in the source).\<close>
  "RegularGrid_init fld ranges crop_shape0 ori strides0 overlap overlap_factor threshold0
                    batch_size fid lid locations =
     (let crop_shape = (if ori = 0 then crop_shape0 else swap01 crop_shape0);
          strides = map_option (\<lambda>s. if ori = 0 then s else swap01 s) strides0
      in case ranges of ((i0, i1), (x0, x1), (h0, h1)) \<Rightarrow>
         if count_given strides overlap overlap_factor > 1 then Inl ValueError
         else (case resolve_strides crop_shape strides overlap overlap_factor of
                 Inl e \<Rightarrow> Inl e
               | Inr strides' \<Rightarrow>
                  (let threshold = (if 0 < threshold0 \<and> threshold0 < 1
                                    then of_int (py_int (threshold0 * of_int (fst crop_shape)
                                                          * of_int (fst (snd crop_shape))))
                                    else threshold0);
                       g = \<lparr> rg_ranges = ranges,
                             rg_origin = (i0, x0, h0),
                             rg_endpoint = (i1, x1, h1),
                             rg_shape = (i1 - i0, x1 - x0, h1 - h0),
                             rg_strides = strides',
                             rg_threshold = threshold,
                             rg_field_id = fid,
                             rg_label_id = lid,
                             rg_orientation = ori,
                             rg_crop_shape = crop_shape,
                             rg_batch_size = batch_size,
                             rg_unfiltered_length = 0,
                             rg_locations = [] \<rparr>
                   in case locations of
                        None \<Rightarrow> RegularGrid_make_locations fld g
                      | Some locs \<Rightarrow> Inr (g \<lparr> rg_locations := locs \<rparr>))))"


section \<open>grids.py: ExtensionGrid\<close>

type_synonym row7 = "int \<times> int \<times> int \<times> int \<times> int \<times> int \<times> int"

text \<open>
  What \<open>ExtensionGrid._make_locations\<close> reads from the horizon: the cells where
  \<open>full_matrix > 0\<close>, the cells of \<open>boundaries_matrix\<close> in \<open>np.where\<close> order, each with
  its depth \<open>matrix[row, col]\<close>, and the offset of the matrix in the cube.
\<close>

record horizon_view =
  hv_presence :: "bool list list"
  hv_boundary :: "(int \<times> int \<times> int) list"
  hv_i_min :: int
  hv_x_min :: int

record extension_grid =
  eg_crop_shape :: vec3
  eg_batch_size :: nat
  eg_directions :: "string list"
  eg_locations :: "crop_location list"
  eg_potential :: "int list"
  eg_uncovered_before :: int
  eg_uncovered_best :: int
  eg_possible :: nat
  eg_top_locations :: nat
  eg_selected :: nat

definition allowed_directions :: "string list" where
  "allowed_directions = [''up'', ''down'', ''left'', ''right'']"

definition mode_directions :: "string \<Rightarrow> error + string list" where
  \<comment> \<open>the \<open>if/elif\<close> chain of \<open>ExtensionGrid.__init__\<close> that fills \<open>self.directions\<close>\<close>
  "mode_directions mode =
     (if mode \<in> set [''best_for_all'', ''best_for_each'', ''best_for_each_independent'']
        then Inr allowed_directions
      else if mode \<in> set allowed_directions then Inr [mode]
      else if mode = ''vertical'' then Inr [''up'', ''down'']
      else if mode = ''horizontal'' then Inr [''left'', ''right'']
      else Inl ValueError)"

definition recognized_modes :: "string list" where
  \<comment> \<open>the modes listed in the docstring of \<open>ExtensionGrid\<close>\<close>
  "recognized_modes = [''best_for_each_independent'', ''up'', ''down'', ''left'', ''right'',
                       ''vertical'', ''horizontal'', ''best_for_all'', ''best_for_each'']"

definition or2 :: "bool list list \<Rightarrow> bool list list \<Rightarrow> bool list list" where
  \<comment> \<open>\<open>c = a.copy(); c[b] = True\<close> for boolean arrays of one shape\<close>
  "or2 a b = map2 (map2 (\<or>)) a b"

definition set_slice2 :: "int \<Rightarrow> int \<Rightarrow> int \<Rightarrow> int \<Rightarrow> bool list list \<Rightarrow> bool list list" where
  \<comment> \<open>\<open>m[i0:i1, x0:x1] = True\<close>\<close>
  "set_slice2 i0 i1 x0 x1 m =
     (let rlo = slice_bound (length m) i0; rhi = slice_bound (length m) i1
      in map (\<lambda>(r, row).
                if rlo \<le> r \<and> r < rhi
                then (let clo = slice_bound (length row) x0; chi = slice_bound (length row) x1
                      in map (\<lambda>(c, v). if clo \<le> c \<and> c < chi then True else v)
                             (zip [0 ..< length row] row))
                else row)
             (zip [0 ..< length m] m))"

definition direction_row :: "string \<Rightarrow> vec3 \<Rightarrow> int \<Rightarrow> vec3 \<Rightarrow> int \<times> int \<times> int \<Rightarrow> row7" where
  \<comment> \<open>one boundary point \<open>(i, x, h)\<close> turned into the candidate of one direction:
      shift, clip, add the crop shape (transposed for the inline-moving directions)\<close>
  "direction_row d cs stride fshape p =
     (case (cs, fshape, p) of ((c0, c1, c2), (n0, n1, n2), (i, x, h)) \<Rightarrow>
        if d = ''up'' then
          (0, i, np_clip 0 n1 (x - stride), h,
              i + c0, np_clip 0 n1 (x - stride) + c1, h + c2)
        else if d = ''down'' then
          (0, i, np_clip 0 (n1 - c1) (x - (c1 - stride)), h,
              i + c0, np_clip 0 (n1 - c1) (x - (c1 - stride)) + c1, h + c2)
        else if d = ''left'' then
          (1, np_clip 0 n0 (i - stride), x, h,
              np_clip 0 n0 (i - stride) + c1, x + c0, h + c2)
        else
          (1, np_clip 0 (n0 - c1) (i - (c1 - stride)), x, h,
              np_clip 0 (n0 - c1) (i - (c1 - stride)) + c1, x + c0, h + c2))"

definition prior_of :: "int \<Rightarrow> int \<Rightarrow> bool list list \<Rightarrow> int option" where
  \<comment> \<open>\<open>prior\<close> of \<open>compute_potential\<close>; it is bound only for orientations 0 and 1\<close>
  "prior_of ori stride sliced =
     (if ori = 0 then
        Some (max (sum2 (py_slice 0 stride sliced)) (sum2 (py_slice 0 (- stride) sliced)))
      else if ori = 1 then
        Some (max (sum2 (map (py_slice 0 stride) sliced)) (sum2 (map (py_slice 0 (- stride)) sliced)))
      else None)"

fun compute_potential ::
  "row7 list \<Rightarrow> bool list list \<Rightarrow> vec3 \<Rightarrow> int \<Rightarrow> int \<Rightarrow> bool \<Rightarrow> error + (int list \<times> bool list list)" where
  "compute_potential [] cov shape stride prior_threshold upd = Inr ([], cov)"
| "compute_potential (loc # locs) cov shape stride prior_threshold upd =
     (case loc of (ori, i0, x0, h0, i1, x1, h1) \<Rightarrow>
        (let area = fst shape * fst (snd shape);
             sliced = slice2 i0 i1 x0 x1 cov
         in if size2 sliced = area then
              (case prior_of ori stride sliced of
                 None \<Rightarrow> Inl UnboundLocalError
               | Some prior \<Rightarrow>
                   if prior \<ge> prior_threshold then
                     (case compute_potential locs (if upd then set_slice2 i0 i1 x0 x1 cov else cov)
                             shape stride prior_threshold upd of
                        Inl e \<Rightarrow> Inl e
                      | Inr (ps, cov') \<Rightarrow> Inr ((area - sum2 sliced) # ps, cov'))
                   else
                     (case compute_potential locs cov shape stride prior_threshold upd of
                        Inl e \<Rightarrow> Inl e
                      | Inr (ps, cov') \<Rightarrow> Inr (- 1 # ps, cov')))
            else
              (case compute_potential locs cov shape stride prior_threshold upd of
                 Inl e \<Rightarrow> Inl e
               | Inr (ps, cov') \<Rightarrow> Inr (- 1 # ps, cov'))))"

definition argsort :: "int list \<Rightarrow> nat list" where
  \<comment> \<open>\<open>np.argsort\<close> of a short row (NumPy sorts up to 16 elements by insertion, which is stable)\<close>
  "argsort ps = map snd (sort_key fst (zip ps [0 ..< length ps]))"

fun chunks_of :: "nat \<Rightarrow> nat \<Rightarrow> 'a list \<Rightarrow> 'a list list" where
  \<comment> \<open>\<open>xs.reshape(-1, n)\<close> as \<open>k\<close> rows of \<open>n\<close> elements\<close>
  "chunks_of n 0 xs = []"
| "chunks_of n (Suc k) xs = take n xs # chunks_of n k (drop n xs)"

definition add_broadcast :: "nat list \<Rightarrow> nat list \<Rightarrow> error + nat list" where
  \<comment> \<open>\<open>a + b\<close> of two one-dimensional arrays\<close>
  "add_broadcast a b =
     (if length a = length b then Inr (map2 (+) a b)
      else if length a = 1 then Inr (map (\<lambda>y. hd a + y) b)
      else if length b = 1 then Inr (map (\<lambda>x. x + hd b) a)
      else Inl ValueError)"

definition best_for_each_indices :: "int list \<Rightarrow> nat \<Rightarrow> nat \<Rightarrow> nat \<Rightarrow> error + nat list" where
  \<comment> \<open>\<open>argsort(axis=-1)[:, -top:].reshape(-1) + np.repeat(np.arange(0, len(buffer), n), top)\<close>\<close>
  "best_for_each_indices potential n_points n top_k =
     (let sorted_rows = map argsort (chunks_of n n_points potential);
          picked = concat (map (\<lambda>r. if top_k = 0 then r else drop (length r - top_k) r) sorted_rows);
          shifts = concat (map (\<lambda>k. replicate top_k (k * n)) [0 ..< n_points])
      in add_broadcast picked shifts)"

definition argmax :: "int list \<Rightarrow> nat" where
  \<comment> \<open>\<open>np.argmax\<close>: the first index of the largest element\<close>
  "argmax xs = (if xs = [] then 0 else length (takeWhile (\<lambda>v. v \<noteq> Max (set xs)) xs))"

definition best_for_all_indices :: "int list \<Rightarrow> nat \<Rightarrow> nat \<Rightarrow> nat list" where
  \<comment> \<open>the column of the direction with the largest summed positive potential\<close>
  "best_for_all_indices potential n_points n =
     (let positive = map (\<lambda>p. if p < 0 then 0 else p) potential;
          rows = chunks_of n n_points positive;
          totals = map (\<lambda>j. sum_list (map (\<lambda>r. r ! j) rows)) [0 ..< n];
          best = argmax totals
      in map (\<lambda>k. best + k * n) [0 ..< n_points])"

definition clip_heights :: "vec3 \<Rightarrow> int \<Rightarrow> row7 \<Rightarrow> crop_location" where
  \<comment> \<open>the depth correction and the two id columns set to \<open>-1\<close>\<close>
  "clip_heights cs depth r =
     (case (cs, r) of ((c0, c1, c2), (ori, i0, x0, h0, i1, x1, h1)) \<Rightarrow>
        \<lparr> field_id = - 1, label_id = - 1, orientation = ori,
          i_start = i0, x_start = x0, h_start = np_clip 0 (depth - c2) h0,
          i_stop = i1, x_stop = x1, h_stop = np_clip (0 + c2) depth h1 \<rparr>)"

definition uncovered_after :: "seismic_field \<Rightarrow> horizon_view \<Rightarrow> crop_location list \<Rightarrow> int" where
  "uncovered_after fld hz locs =
     (let cov = foldl (\<lambda>m l. set_slice2 (i_start l) (i_stop l) (x_start l) (x_stop l) m)
                      (or2 (zero_traces fld) (hv_presence hz)) locs
      in size2 cov - sum2 cov)"

definition ExtensionGrid_make_locations ::
  "seismic_field \<Rightarrow> horizon_view \<Rightarrow> vec3 \<Rightarrow> int \<Rightarrow> nat \<Rightarrow> nat \<Rightarrow> int \<Rightarrow> int \<Rightarrow> bool \<Rightarrow>
   nat list \<Rightarrow> string \<Rightarrow> string list \<Rightarrow> error + extension_grid" where
  \<comment> \<open>\<open>ExtensionGrid._make_locations\<close>. \<open>perm\<close> is the value drawn by
      \<open>np.random.permutation(n_directions)\<close>; \<open>directions\<close> is one of the lists made by
      the constructor, so the filled slots are exactly its elements.\<close>
  "ExtensionGrid_make_locations fld hz crop_shape stride batch_size top_k threshold prior_threshold
                                randomize perm mode directions =
     (let coverage_matrix = or2 (zero_traces fld) (hv_presence hz);
          uncovered_before = size2 coverage_matrix - sum2 coverage_matrix;
          border = map (\<lambda>(r, c, h). (r + hv_i_min hz, c + hv_x_min hz,
                                      h - snd (snd crop_shape) div 2)) (hv_boundary hz);
          slots = filter (\<lambda>d. d \<in> set directions) allowed_directions;
          n_directions = length slots;
          update_coverage_matrix = (mode \<notin> set [''best_for_all'', ''best_for_each_independent'']);
          slots' = (if randomize \<and> update_coverage_matrix then map (\<lambda>k. slots ! k) perm else slots);
          buffer = concat (map (\<lambda>p. map (\<lambda>d. direction_row d crop_shape stride (field_shape fld) p)
                                           slots') border)
      in case compute_potential buffer coverage_matrix crop_shape stride prior_threshold
                update_coverage_matrix of
           Inl e \<Rightarrow> Inl e
         | Inr (potential, coverage_matrix') \<Rightarrow>
            (case (if mode \<in> set [''best_for_each'', ''best_for_each_independent'']
                     then best_for_each_indices potential (length border) n_directions top_k
                   else if mode = ''best_for_all''
                     then Inr (best_for_all_indices potential (length border) n_directions)
                   else Inr [0 ..< length buffer]) of
               Inl e \<Rightarrow> Inl e
             | Inr indices \<Rightarrow>
                (let kept = map (\<lambda>k. (buffer ! k, potential ! k)) indices;
                     unique_rows = sort (remdups (map fst kept));
                     top_locations = map (\<lambda>r. (r, the (map_of kept r))) unique_rows;
                     selected = filter (\<lambda>(r, p). p > threshold) top_locations;
                     locations = map (clip_heights crop_shape (field_depth fld) \<circ> fst) selected
                 in Inr \<lparr> eg_crop_shape = crop_shape,
                          eg_batch_size = batch_size,
                          eg_directions = directions,
                          eg_locations = locations,
                          eg_potential = map snd selected,
                          eg_uncovered_before = uncovered_before,
                          eg_uncovered_best =
                            (if update_coverage_matrix
                             then size2 coverage_matrix' - sum2 coverage_matrix'
                             else uncovered_after fld hz locations),
                          eg_possible = length buffer,
                          eg_top_locations = length top_locations,
                          eg_selected = length selected \<rparr>)))"

definition ExtensionGrid_init ::
  "seismic_field \<Rightarrow> horizon_view \<Rightarrow> vec3 \<Rightarrow> int \<Rightarrow> nat \<Rightarrow> nat \<Rightarrow> int \<Rightarrow> int \<Rightarrow> bool \<Rightarrow>
   nat list \<Rightarrow> string \<Rightarrow> error + extension_grid" where
  \<comment> \<open>\<open>ExtensionGrid.__init__\<close>: the mode check, then \<open>BaseGrid.__init__\<close> builds the locations\<close>
  "ExtensionGrid_init fld hz crop_shape stride batch_size top_k threshold prior_threshold
                      randomize perm mode =
     (case mode_directions mode of
        Inl e \<Rightarrow> Inl e
      | Inr directions \<Rightarrow>
          ExtensionGrid_make_locations fld hz crop_shape stride batch_size top_k threshold
            prior_threshold randomize perm mode directions)"


section \<open>grids.py: LocationsPotentialContainer\<close>

text \<open>
  The container keeps the locations as rows of a structured array (one value per row, so that
  \<open>np.in1d\<close> compares whole rows) and the potentials as a column of the same length.
\<close>

record locations_potential_container =
  lpc_locations :: "crop_location list"
  lpc_potential :: "int list"
  lpc_repeated_locations :: "nat list"
  lpc_total_repeated_locations :: nat

definition LocationsPotentialContainer_init ::
  "crop_location list option \<Rightarrow> int list option \<Rightarrow> locations_potential_container" where
  \<comment> \<open>\<open>LocationsPotentialContainer.__init__\<close>: empty arrays when nothing is given\<close>
  "LocationsPotentialContainer_init locations potential =
     \<lparr> lpc_locations = (case locations of None \<Rightarrow> [] | Some l \<Rightarrow> l),
       lpc_potential = (case potential of None \<Rightarrow> [] | Some p \<Rightarrow> p),
       lpc_repeated_locations = [], lpc_total_repeated_locations = 0 \<rparr>"

definition in1d :: "'a list \<Rightarrow> 'a list \<Rightarrow> bool list" where
  \<comment> \<open>\<open>np.in1d(xs, ys)\<close>: for each element of \<open>xs\<close>, whether it occurs anywhere in \<open>ys\<close>\<close>
  "in1d xs ys = map (\<lambda>x. x \<in> set ys) xs"

definition select_not :: "bool list \<Rightarrow> 'a list \<Rightarrow> 'a list" where
  \<comment> \<open>\<open>xs[~flags]\<close>\<close>
  "select_not flags xs = map snd (filter (\<lambda>(b, x). \<not> b) (zip flags xs))"

definition update_grid ::
  "locations_potential_container \<Rightarrow> extension_grid \<Rightarrow> locations_potential_container \<times> extension_grid" where
  \<comment> \<open>\<open>LocationsPotentialContainer.update_grid\<close>; both objects are mutated, so both are returned\<close>
  "update_grid self grid =
     (let repeated_locations = in1d (eg_locations grid) (lpc_locations self);
          repeated_potential = in1d (eg_potential grid) (lpc_potential self);
          repeated_locations_potential = map2 (\<and>) repeated_locations repeated_potential;
          new_locations = select_not repeated_locations_potential (eg_locations grid);
          new_potential = select_not repeated_locations_potential (eg_potential grid);
          n_repeated = length (eg_locations grid) - length new_locations;
          self1 = self \<lparr> lpc_repeated_locations := lpc_repeated_locations self @ [n_repeated],
                         lpc_total_repeated_locations := lpc_total_repeated_locations self + n_repeated \<rparr>
      in if length new_locations > 0 then
           (if length (lpc_locations self1) > 0 then
              (let repeated_locations_history = in1d (lpc_locations self1) new_locations
               in (self1 \<lparr> lpc_locations :=
                              select_not repeated_locations_history (lpc_locations self1) @ new_locations,
                            lpc_potential :=
                              select_not repeated_locations_history (lpc_potential self1) @ new_potential \<rparr>,
                   grid \<lparr> eg_locations := new_locations, eg_potential := new_potential \<rparr>))
            else (self1 \<lparr> lpc_locations := new_locations, lpc_potential := new_potential \<rparr>,
                  grid \<lparr> eg_locations := new_locations, eg_potential := new_potential \<rparr>))
         else (self1, grid \<lparr> eg_locations := [], eg_potential := [] \<rparr>))"


section \<open>labels/horizon.py: the two storages of a Horizon\<close>

type_synonym point = "int \<times> int \<times> int"

type_synonym imatrix = "int list list"

definition FILL_VALUE :: int where
  "FILL_VALUE = - 999999"

datatype cached_value = BoolMatrix "bool list list" | IntMatrix imatrix

text \<open>
  The instance attributes of a Horizon with the default \<open>dtype=np.int32\<close>. \<open>None\<close> is Python's
  \<open>None\<close>. The arrays given to the constructors are int32 arrays, on which \<open>np.rint\<close> and
  \<open>astype(self.dtype)\<close> change nothing; where the source casts a possibly wider integer
  (\<open>astype(np.int32)\<close>, a write into the int32 matrix) the wrap-around is written out. The float statistics \<open>_h_mean\<close> and \<open>_h_std\<close> are only ever reset and are left
  out. \<open>hz_cache\<close> is the store behind the \<open>lru_cache\<close> decorator: attribute name to value.
\<close>

record horizon =
  hz_points :: "point list option"
  hz_matrix :: "imatrix option"
  hz_depths :: "int list option"
  hz_i_min :: "int option"
  hz_i_max :: "int option"
  hz_x_min :: "int option"
  hz_x_max :: "int option"
  hz_i_length :: "int option"
  hz_x_length :: "int option"
  hz_bbox :: "ranges3 option"
  hz_h_min :: "int option"
  hz_h_max :: "int option"
  hz_len :: "nat option"
  hz_cache :: "(string \<times> cached_value) list"

definition new_horizon :: horizon where
  \<comment> \<open>the attributes as \<open>Horizon.__init__\<close> sets them before it reads the storage\<close>
  "new_horizon = \<lparr> hz_points = None, hz_matrix = None, hz_depths = None,
                    hz_i_min = None, hz_i_max = None, hz_x_min = None, hz_x_max = None,
                    hz_i_length = None, hz_x_length = None, hz_bbox = None,
                    hz_h_min = None, hz_h_max = None, hz_len = None, hz_cache = [] \<rparr>"

definition recursion_limit :: nat where
  \<comment> \<open>\<open>sys.getrecursionlimit()\<close> of CPython\<close>
  "recursion_limit = 1000"

definition enumerate0 :: "'a list \<Rightarrow> (int \<times> 'a) list" where
  "enumerate0 xs = zip (map int [0 ..< length xs]) xs"

definition matrix_to_points :: "imatrix \<Rightarrow> point list" where
  \<comment> \<open>\<open>Horizon.matrix_to_points\<close>: the cells other than \<open>FILL_VALUE\<close> in \<open>np.nonzero\<close>
      (row-major) order, as (row, column, value)\<close>
  "matrix_to_points matrix =
     concat (map (\<lambda>(r, row). concat (map (\<lambda>(c, v). if v \<noteq> FILL_VALUE then [(r, c, v)] else [])
                                           (enumerate0 row)))
                 (enumerate0 matrix))"

definition np_index :: "nat \<Rightarrow> int \<Rightarrow> nat option" where
  \<comment> \<open>one integer index into an axis of length \<open>n\<close>: negative indices count from the end,
      anything else out of range is an IndexError\<close>
  "np_index n k = (if 0 \<le> k \<and> k < int n then Some (nat k)
                   else if - int n \<le> k \<and> k < 0 then Some (nat (k + int n))
                   else None)"

definition width :: "'a list list \<Rightarrow> nat" where
  \<comment> \<open>\<open>m.shape[1]\<close> of an array with at least one row\<close>
  "width m = (case m of [] \<Rightarrow> 0 | r # _ \<Rightarrow> length r)"

definition int32 :: "int \<Rightarrow> int" where
  \<comment> \<open>\<open>astype(np.int32)\<close> of a wider integer: the value modulo \<open>2^32\<close>, read as signed\<close>
  "int32 v = (v + 2 ^ 31) mod 2 ^ 32 - 2 ^ 31"

definition in_int32 :: "int \<Rightarrow> bool" where
  "in_int32 v = (- (2 ^ 31) \<le> v \<and> v < 2 ^ 31)"

definition index_diff :: "int \<Rightarrow> int \<Rightarrow> int" where
  \<comment> \<open>\<open>points[:, k].astype(np.int32) - lo\<close> with a Python integer \<open>lo\<close>: the difference stays in
      int32, and wraps, when \<open>lo\<close> fits int32; a larger \<open>lo\<close> moves the array to int64
      (the value-based casting of the NumPy versions the sources use)\<close>
  "index_diff c lo = (if in_int32 lo then int32 (int32 c - lo) else int32 c - lo)"

fun scatter :: "point list \<Rightarrow> int \<Rightarrow> int \<Rightarrow> imatrix \<Rightarrow> error + imatrix" where
  \<comment> \<open>\<open>matrix[points[:, 0].astype(np.int32) - i_min, points[:, 1].astype(np.int32) - x_min]
      = points[:, 2]\<close> into an int32 matrix: the writes happen in order, so the last point of
      a cell wins, and each depth is cast to int32\<close>
  "scatter [] i_min x_min m = Inr m"
| "scatter ((i, x, h) # ps) i_min x_min m =
     (case (np_index (length m) (index_diff i i_min), np_index (width m) (index_diff x x_min)) of
        (Some r, Some c) \<Rightarrow> scatter ps i_min x_min (m[r := (m ! r)[c := int32 h]])
      | _ \<Rightarrow> Inl IndexError)"

definition points_to_matrix :: "point list \<Rightarrow> int \<Rightarrow> int \<Rightarrow> int \<Rightarrow> int \<Rightarrow> error + imatrix" where
  \<comment> \<open>\<open>Horizon.points_to_matrix\<close> with the default \<open>dtype=np.int32\<close>; \<open>np.full\<close> refuses a
      negative dimension\<close>
  "points_to_matrix points i_min x_min i_length x_length =
     (if i_length < 0 \<or> x_length < 0 then Inl ValueError
      else scatter points i_min x_min
             (replicate (nat i_length) (replicate (nat x_length) FILL_VALUE)))"

definition shift_points :: "int \<Rightarrow> int \<Rightarrow> point list \<Rightarrow> point list" where
  \<comment> \<open>\<open>points = points.astype(np.int32); points += np.array([i_min, x_min, 0], dtype=np.int32)\<close>:
      int32 arithmetic, which wraps\<close>
  "shift_points i_min x_min ps =
     map (\<lambda>(r, c, h). (int32 (int32 r + int32 i_min), int32 (int32 c + int32 x_min), int32 h)) ps"

text \<open>
  The two lazy properties call each other: \<open>points\<close> reads \<open>self.matrix\<close> when \<open>_points\<close> is
  \<open>None\<close>, and \<open>matrix\<close> reads \<open>self.points\<close> when \<open>_matrix\<close> is \<open>None\<close>. The first argument is
  the number of stack frames left; running out of them is Python's RecursionError. A missing
  bounding box (\<open>None\<close>) reaches \<open>np.full\<close> or the addition and raises a TypeError.
\<close>

fun points_get :: "nat \<Rightarrow> horizon \<Rightarrow> error + (point list option \<times> horizon)"
  and matrix_get :: "nat \<Rightarrow> horizon \<Rightarrow> error + (imatrix option \<times> horizon)" where
  "points_get 0 s = Inl RecursionError"
| "points_get (Suc d) s =
     (case hz_points s of
        Some p \<Rightarrow> Inr (Some p, s)
      | None \<Rightarrow>
         (case matrix_get d s of
            Inl e \<Rightarrow> Inl e
          | Inr (None, s') \<Rightarrow> Inr (None, s')
          | Inr (Some m, s') \<Rightarrow>
             (case (hz_i_min s', hz_x_min s') of
                (Some i_min, Some x_min) \<Rightarrow>
                  (let pts = shift_points i_min x_min (matrix_to_points m)
                   in Inr (Some pts, s' \<lparr> hz_points := Some pts \<rparr>))
              | _ \<Rightarrow> Inl TypeError)))"
| "matrix_get 0 s = Inl RecursionError"
| "matrix_get (Suc d) s =
     (case hz_matrix s of
        Some m \<Rightarrow> Inr (Some m, s)
      | None \<Rightarrow>
         (case points_get d s of
            Inl e \<Rightarrow> Inl e
          | Inr (None, s') \<Rightarrow> Inr (None, s')
          | Inr (Some p, s') \<Rightarrow>
             (case (hz_i_min s', hz_x_min s', hz_i_length s', hz_x_length s') of
                (Some i_min, Some x_min, Some i_length, Some x_length) \<Rightarrow>
                  (case points_to_matrix p i_min x_min i_length x_length of
                     Inl e \<Rightarrow> Inl e
                   | Inr m \<Rightarrow> Inr (Some m, s' \<lparr> hz_matrix := Some m \<rparr>))
              | _ \<Rightarrow> Inl TypeError)))"

definition points_of :: "horizon \<Rightarrow> error + (point list option \<times> horizon)" where
  \<comment> \<open>reading the property \<open>self.points\<close>\<close>
  "points_of s = points_get recursion_limit s"

definition matrix_of :: "horizon \<Rightarrow> error + (imatrix option \<times> horizon)" where
  \<comment> \<open>reading the property \<open>self.matrix\<close>\<close>
  "matrix_of s = matrix_get recursion_limit s"






datatype storage_name = Matrix_storage | Points_storage | No_storage

definition reset_storage :: "storage_name \<Rightarrow> horizon \<Rightarrow> error + horizon" where
  \<comment> \<open>\<open>Horizon.reset_storage\<close>. It never touches the attribute cache.\<close>
  "reset_storage storage s0 =
     (let s = s0 \<lparr> hz_depths := None, hz_h_min := None, hz_h_max := None, hz_len := None \<rparr>
      in case storage of
           Matrix_storage \<Rightarrow>
             (case points_of (s \<lparr> hz_matrix := None \<rparr>) of
                Inl e \<Rightarrow> Inl e
              | Inr (None, s1) \<Rightarrow> Inl TypeError
              | Inr (Some p, s1) \<Rightarrow>
                  if length p > 0 then
                    (let hs = map (\<lambda>(i, x, h). h) p;
                         i_min = Min (set (map fst p)); i_max = Max (set (map fst p));
                         x_min = Min (set (map (fst \<circ> snd) p)); x_max = Max (set (map (fst \<circ> snd) p))
                     in Inr (s1 \<lparr> hz_h_min := Some (Min (set hs)), hz_h_max := Some (Max (set hs)),
                                  hz_i_min := Some i_min, hz_i_max := Some i_max,
                                  hz_x_min := Some x_min, hz_x_max := Some x_max,
                                  hz_i_length := Some (i_max - i_min + 1),
                                  hz_x_length := Some (x_max - x_min + 1),
                                  hz_bbox := Some ((i_min, i_max), (x_min, x_max),
                                                   (Min (set hs), Max (set hs))) \<rparr>))
                  else Inr s1)
         | Points_storage \<Rightarrow> Inr (s \<lparr> hz_points := None \<rparr>)
         | No_storage \<Rightarrow> Inr s)"

definition reset_cache :: "horizon \<Rightarrow> horizon" where
  \<comment> \<open>Modelled from the spec: \<open>CacheMixin.reset_cache\<close> is imported from \<open>..utils\<close> and is
      not among the sources; the spec has it invalidate all entries of the attribute cache.\<close>
  "reset_cache s = s \<lparr> hz_cache := [] \<rparr>"

definition from_points :: "seismic_field \<Rightarrow> point list \<Rightarrow> bool \<Rightarrow> horizon \<Rightarrow> error + horizon" where
  \<comment> \<open>\<open>Horizon.from_points\<close> with \<open>dst='points'\<close> and \<open>reset='matrix'\<close>\<close>
  "from_points fld points verify s =
     (case field_shape fld of (n0, n1, n2) \<Rightarrow>
        (let points' = (if verify
                        then filter (\<lambda>(i, x, h). i \<ge> 0 \<and> x \<ge> 0 \<and> h \<ge> 0 \<and> i < n0 \<and> x < n1 \<and> h < n2) points
                        else points)
         in reset_storage Matrix_storage (s \<lparr> hz_points := Some points' \<rparr>)))"




section \<open>labels/horizon.py and labels/horizon_processing.py: transforms\<close>

definition apply_to_points :: "(point list \<Rightarrow> error + point list) \<Rightarrow> horizon \<Rightarrow> error + horizon" where
  \<comment> \<open>\<open>Horizon.apply_to_points\<close>\<close>
  "apply_to_points function s =
     (case points_of s of
        Inl e \<Rightarrow> Inl e
      | Inr (None, s1) \<Rightarrow> Inl TypeError
      | Inr (Some p, s1) \<Rightarrow>
         (case function p of
            Inl e \<Rightarrow> Inl e
          | Inr p' \<Rightarrow>
             (case reset_storage Matrix_storage (s1 \<lparr> hz_points := Some p' \<rparr>) of
                Inl e \<Rightarrow> Inl e
              | Inr s2 \<Rightarrow> Inr (reset_cache s2))))"

definition apply_to_matrix :: "(imatrix \<Rightarrow> error + imatrix) \<Rightarrow> horizon \<Rightarrow> error + horizon" where
  \<comment> \<open>\<open>Horizon.apply_to_matrix\<close> for a function that returns the new matrix only\<close>
  "apply_to_matrix function s =
     (case matrix_of s of
        Inl e \<Rightarrow> Inl e
      | Inr (None, s1) \<Rightarrow> Inl TypeError
      | Inr (Some m, s1) \<Rightarrow>
         (case function m of
            Inl e \<Rightarrow> Inl e
          | Inr m' \<Rightarrow>
             (case reset_storage Points_storage (s1 \<lparr> hz_matrix := Some m' \<rparr>) of
                Inl e \<Rightarrow> Inl e
              | Inr s2 \<Rightarrow> Inr (reset_cache s2))))"

fun lookup_mask :: "bool list list \<Rightarrow> point list \<Rightarrow> error + bool list" where
  \<comment> \<open>\<open>filtering_matrix[points[:, 0], points[:, 1]]\<close>\<close>
  "lookup_mask fm [] = Inr []"
| "lookup_mask fm ((i, x, h) # ps) =
     (case (np_index (length fm) i, np_index (width fm) x) of
        (Some r, Some c) \<Rightarrow>
          (case lookup_mask fm ps of Inl e \<Rightarrow> Inl e | Inr bs \<Rightarrow> Inr (fm ! r ! c # bs))
      | _ \<Rightarrow> Inl IndexError)"

definition filtering_function :: "bool list list \<Rightarrow> point list \<Rightarrow> error + point list" where
  \<comment> \<open>\<open>points[mask == 0]\<close>\<close>
  "filtering_function fm points =
     (case lookup_mask fm points of
        Inl e \<Rightarrow> Inl e
      | Inr flags \<Rightarrow> Inr (map fst (filter (\<lambda>(p, b). \<not> b) (zip points flags))))"

definition Horizon_filter_points :: "bool list list \<Rightarrow> horizon \<Rightarrow> error + horizon" where
  \<comment> \<open>\<open>Horizon.filter_points\<close> of \<open>src/labels/horizon.py\<close>\<close>
  "Horizon_filter_points filtering_matrix s = apply_to_points (filtering_function filtering_matrix) s"

definition margin_frame :: "(nat \<Rightarrow> bool list list \<Rightarrow> bool list list) \<Rightarrow> int \<Rightarrow> bool list list \<Rightarrow> bool list list" where
  \<comment> \<open>the \<open>margin > 0\<close> branch: dilation by \<open>scipy\<close>'s \<open>binary_dilation\<close> (a parameter here),
      then the four border bands set to 1\<close>
  "margin_frame binary_dilation margin fm =
     (if margin > 0 then
        (let d = binary_dilation (nat margin) fm; n = int (length d); w = int (width d);
             a = set_slice2 0 margin 0 w d;
             b = set_slice2 0 n 0 margin a;
             c = set_slice2 (- margin) n 0 w b
         in set_slice2 0 n (- margin) w c)
      else fm)"

definition ProcessingMixin_filter_points ::
  "(nat \<Rightarrow> bool list list \<Rightarrow> bool list list) \<Rightarrow> bool list list \<Rightarrow> int \<Rightarrow> horizon \<Rightarrow> error + horizon" where
  \<comment> \<open>\<open>ProcessingMixin.filter_points\<close> of \<open>labels/horizon_processing.py\<close>, on a surface
      whose \<open>reset_storage\<close> is the one of \<open>Horizon\<close>\<close>
  "ProcessingMixin_filter_points binary_dilation filtering_matrix margin s =
     (let fm = margin_frame binary_dilation margin filtering_matrix
      in case points_of s of
           Inl e \<Rightarrow> Inl e
         | Inr (None, s1) \<Rightarrow> Inl TypeError
         | Inr (Some p, s1) \<Rightarrow>
            (case filtering_function fm p of
               Inl e \<Rightarrow> Inl e
             | Inr p' \<Rightarrow> reset_storage Matrix_storage (s1 \<lparr> hz_points := Some p' \<rparr>)))"


section \<open>labels/horizon.py and labels/horizon_attributes.py: full matrices and subtraction\<close>

definition broadcast_to :: "nat \<Rightarrow> 'a list \<Rightarrow> error + 'a list" where
  \<comment> \<open>NumPy broadcasting of one axis to length \<open>k\<close>\<close>
  "broadcast_to k xs = (if length xs = k then Inr xs
                        else if length xs = 1 then Inr (replicate k (hd xs))
                        else Inl ValueError)"

definition broadcast_row :: "nat \<Rightarrow> 'a list \<Rightarrow> 'a list" where
  \<comment> \<open>a row of the block, of the region's width or of width one\<close>
  "broadcast_row cw b = (if length b = cw then b else replicate cw (hd b))"

definition assign_block :: "int \<Rightarrow> int \<Rightarrow> int \<Rightarrow> int \<Rightarrow> 'a list list \<Rightarrow> 'a list list \<Rightarrow> error + 'a list list" where
  \<comment> \<open>\<open>bg[i0:i1, x0:x1] = block\<close>\<close>
  "assign_block i0 i1 x0 x1 block bg =
     (let rlo = slice_bound (length bg) i0; rhi = slice_bound (length bg) i1;
          clo = slice_bound (width bg) x0; chi = slice_bound (width bg) x1
      in case broadcast_to (rhi - rlo) block of
           Inl e \<Rightarrow> Inl e
         | Inr rows \<Rightarrow>
            (if list_all (\<lambda>r. length r = chi - clo \<or> length r = 1) rows then
               Inr (map (\<lambda>(r, row).
                          if rlo \<le> r \<and> r < rhi
                          then take clo row @ broadcast_row (chi - clo) (rows ! (r - rlo))
                               @ drop (clo + (chi - clo)) row
                          else row)
                        (zip [0 ..< length bg] bg))
             else Inl ValueError))"

definition matrix_put_on_full :: "seismic_field \<Rightarrow> 'a \<Rightarrow> horizon \<Rightarrow> 'a list list \<Rightarrow> error + 'a list list" where
  \<comment> \<open>\<open>AttributesMixin.matrix_put_on_full\<close>; \<open>fill\<close> is \<open>_dtype_to_fill_value\<close> of the dtype\<close>
  "matrix_put_on_full fld fill s matrix =
     (case cube_shape fld of (n0, n1, n2) \<Rightarrow>
        if (int (length matrix), int (width matrix)) \<noteq> (n0, n1) then
          (if n0 < 0 \<or> n1 < 0 then Inl ValueError
           else case (hz_i_min s, hz_i_max s, hz_x_min s, hz_x_max s) of
             (Some i_min, Some i_max, Some x_min, Some x_max) \<Rightarrow>
                assign_block i_min (i_max + 1) x_min (x_max + 1) matrix
                  (replicate (nat n0) (replicate (nat n1) fill))
           | _ \<Rightarrow> Inl TypeError)
        else Inr matrix)"


definition binary_matrix_of :: "horizon \<Rightarrow> error + (bool list list \<times> horizon)" where
  \<comment> \<open>the property \<open>binary_matrix\<close>: \<open>self.matrix > 0\<close>\<close>
  "binary_matrix_of s =
     (case matrix_of s of
        Inl e \<Rightarrow> Inl e
      | Inr (None, s1) \<Rightarrow> Inl TypeError
      | Inr (Some m, s1) \<Rightarrow> Inr (map (map (\<lambda>v. v > 0)) m, s1))"

definition presence_matrix_of :: "seismic_field \<Rightarrow> horizon \<Rightarrow> error + (bool list list \<times> horizon)" where
  \<comment> \<open>the property \<open>presence_matrix\<close> (\<open>full_binary_matrix\<close>) under \<open>lru_cache(maxsize=1)\<close>.
      Modelled from the spec: the decorator \<open>lru_cache\<close> of \<open>..utils\<close> is not among the
      sources; the spec has it memoize the result until the cache is invalidated.\<close>
  "presence_matrix_of fld s =
     (case map_of (hz_cache s) ''presence_matrix'' of
        Some (BoolMatrix b) \<Rightarrow> Inr (b, s)
      | _ \<Rightarrow>
        (case binary_matrix_of s of
           Inl e \<Rightarrow> Inl e
         | Inr (b, s1) \<Rightarrow>
            (case matrix_put_on_full fld False s1 b of
               Inl e \<Rightarrow> Inl e
             | Inr full \<Rightarrow>
                 Inr (full, s1 \<lparr> hz_cache := (''presence_matrix'', BoolMatrix full) # hz_cache s1 \<rparr>))))"





section \<open>labels/horizon.py: thin_out\<close>

definition every_nth :: "int \<Rightarrow> 'a list \<Rightarrow> error + 'a list" where
  \<comment> \<open>\<open>xs[::k]\<close>\<close>
  "every_nth k xs =
     (if k = 0 then Inl ValueError
      else if k > 0 then Inr (map ((!) xs) (filter (\<lambda>j. int j mod k = 0) [0 ..< length xs]))
      else Inr (map ((!) (rev xs)) (filter (\<lambda>j. int j mod (- k) = 0) [0 ..< length xs])))"

definition kept_lines :: "int list \<Rightarrow> int \<Rightarrow> int \<Rightarrow> error + int list" where
  \<comment> \<open>\<open>uniques[counts > threshold][::factor]\<close> for \<open>np.unique(vals, return_counts=True)\<close>\<close>
  "kept_lines vals threshold factor =
     every_nth factor (filter (\<lambda>u. int (count_list vals u) > threshold) (sort (remdups vals)))"

definition Horizon_thin_out :: "int \<times> int \<Rightarrow> int \<Rightarrow> horizon \<Rightarrow> error + horizon" where
  \<comment> \<open>\<open>Horizon.thin_out\<close> (the same text in both source files), \<open>factor\<close> already a pair\<close>
  "Horizon_thin_out factor threshold s =
     (case points_of s of
        Inl e \<Rightarrow> Inl e
      | Inr (None, s1) \<Rightarrow> Inl TypeError
      | Inr (Some p, s1) \<Rightarrow>
         (case kept_lines (map fst p) threshold (fst factor) of
            Inl e \<Rightarrow> Inl e
          | Inr lines_i \<Rightarrow>
             (case kept_lines (map (fst \<circ> snd) p) threshold (snd factor) of
                Inl e \<Rightarrow> Inl e
              | Inr lines_x \<Rightarrow>
                 reset_storage Matrix_storage
                   (s1 \<lparr> hz_points := Some (filter (\<lambda>(i, x, h). i \<in> set lines_i \<or> x \<in> set lines_x) p) \<rparr>))))"

section \<open>labels/fault.py: Fault.from_mask\<close>

text \<open>
  \<open>Fault.from_mask\<close> with \<open>fmt='mask'\<close>, \<open>cube_shape=None\<close> and \<open>field=None\<close>: the array is a boolean
  mask, a list of planes along axis 0, and the result is the list of \<open>(size, points)\<close> pairs.
  The rows of the \<open>(N, 4)\<close> array \<open>labels\<close> are \<open>(i, x, h, label)\<close>.
\<close>

type_synonym voxel = "int \<times> int \<times> int"
type_synonym label_row = "int \<times> int \<times> int \<times> int"

definition py_range :: "int \<Rightarrow> int \<Rightarrow> int \<Rightarrow> error + int list" where
  \<comment> \<open>\<open>range(start, stop, step)\<close>: a zero step raises ValueError\<close>
  "py_range start stop step =
     (if step = 0 then Inl ValueError
      else Inr (map (\<lambda>k. start + int k * step) [0 ..< nat (- ((start - stop) div step))]))"

definition np_where3 :: "'a list list list \<Rightarrow> ('a \<Rightarrow> bool) \<Rightarrow> voxel list" where
  \<comment> \<open>\<open>np.where(a)\<close> of a three-dimensional array, as rows of coordinates in C order;
      \<open>nonzero\<close> tells which elements count\<close>
  "np_where3 a nonzero =
     concat (map (\<lambda>(i, plane).
               concat (map (\<lambda>(x, row). map (\<lambda>(h, v). (i, x, h))
                                            (filter (\<lambda>(h, v). nonzero v) (enumerate0 row)))
                           (enumerate0 plane)))
                 (enumerate0 a))"

definition adjacent :: "voxel \<Rightarrow> voxel \<Rightarrow> bool" where
  \<comment> \<open>neighbours under the structuring element \<open>np.ones((3, 3, 3))\<close>\<close>
  "adjacent p q = (case (p, q) of ((i, x, h), (j, y, g)) \<Rightarrow>
                     \<bar>i - j\<bar> \<le> 1 \<and> \<bar>x - y\<bar> \<le> 1 \<and> \<bar>h - g\<bar> \<le> 1)"

fun grow :: "nat \<Rightarrow> voxel list \<Rightarrow> voxel list \<Rightarrow> voxel list" where
  \<comment> \<open>\<open>n\<close> rounds of adding the neighbours of what is reached\<close>
  "grow 0 vs reached = reached"
| "grow (Suc n) vs reached = grow n vs (filter (\<lambda>v. list_ex (adjacent v) reached) vs)"

definition component :: "voxel list \<Rightarrow> voxel \<Rightarrow> voxel list" where
  \<comment> \<open>the connected component of \<open>v\<close>: a round that adds nothing ends the growth, so
      \<open>length vs\<close> rounds are enough\<close>
  "component vs v = grow (length vs) vs [v]"

fun label_from :: "voxel list \<Rightarrow> voxel list \<Rightarrow> int \<Rightarrow> (voxel \<times> int) list \<Rightarrow> (voxel \<times> int) list \<times> int" where
  "label_from vs [] n acc = (acc, n)"
| "label_from vs (v # rest) n acc =
     (if map_of acc v \<noteq> None then label_from vs rest n acc
      else label_from vs rest (n + 1) (acc @ map (\<lambda>c. (c, n + 1)) (component vs v)))"

definition measurements_label :: "bool list list list \<Rightarrow> int list list list \<times> int" where
  \<comment> \<open>\<open>scipy.ndimage.measurements.label(item, structure=np.ones((3, 3, 3)))\<close>: the array of
      labels, 0 on the background, and the number of components; the components are numbered
      from 1 in the order of their first voxels\<close>
  "measurements_label item =
     (let vs = np_where3 item id;
          (assigned, n) = label_from vs vs 0 []
      in (map (\<lambda>(i, plane). map (\<lambda>(x, row). map (\<lambda>(h, v).
                 case map_of assigned (i, x, h) of Some l \<Rightarrow> l | None \<Rightarrow> 0) (enumerate0 row))
                 (enumerate0 plane)) (enumerate0 item), n))"

definition label_column :: "label_row list \<Rightarrow> int list" where
  \<comment> \<open>\<open>rows[:, 3]\<close>\<close>
  "label_column rows = map (\<lambda>(i, x, h, l). l) rows"

definition np_ne_any :: "int list \<Rightarrow> int list \<Rightarrow> error + bool" where
  \<comment> \<open>\<open>(a != b).any()\<close> of two one-dimensional arrays. For lengths that do not broadcast,
      NumPy before 1.25 (the sources use \<open>np.bool\<close> and \<open>np.int\<close>) answers the comparison with
      the Python value True, which has no method \<open>any\<close>; later versions raise ValueError in
      the comparison itself.\<close>
  "np_ne_any a b =
     (if length a = length b then Inr (list_ex (\<lambda>(x, y). x \<noteq> y) (zip a b))
      else if length a = 1 then Inr (list_ex (\<lambda>y. hd a \<noteq> y) b)
      else if length b = 1 then Inr (list_ex (\<lambda>x. x \<noteq> hd b) a)
      else Inl AttributeError)"

definition dict_of :: "(int \<times> int) list \<Rightarrow> (int \<times> int) list" where
  \<comment> \<open>a dict comprehension: a key keeps the place of its first insertion and its last value\<close>
  "dict_of kvs =
     fold (\<lambda>(k, v) d. if map_of d k \<noteq> None
                         then map (\<lambda>(k', w). if k' = k then (k', v) else (k', w)) d
                         else d @ [(k, v)]) kvs []"

definition relabel :: "(int \<times> int) list \<Rightarrow> label_row list \<Rightarrow> label_row list" where
  \<comment> \<open>\<open>for k, v in transform.items(): rows[rows[:, 3] == k, 3] = v\<close>\<close>
  "relabel transform rows =
     fold (\<lambda>(k, v). map (\<lambda>(i, x, h, l). if l = k then (i, x, h, v) else (i, x, h, l))) transform rows"

record reconciliation =
  rc_new_labels :: "label_row list"
  rc_overlapped_labels :: "int list"
  rc_labels :: "label_row list"
  rc_prev_overlapped_labels :: "int list"

definition reconcile_step :: "int \<Rightarrow> int \<Rightarrow> reconciliation \<Rightarrow> reconciliation" where
  \<comment> \<open>the body of the \<open>while\<close> loop\<close>
  "reconcile_step start overlap st =
     (let transform = dict_of (filter (\<lambda>(k, v). k \<noteq> v)
                                 (zip (rc_overlapped_labels st) (rc_prev_overlapped_labels st)));
          new_labels = relabel transform (rc_new_labels st);
          overlapped_labels = label_column (filter (\<lambda>(i, x, h, l). i < overlap) new_labels);
          transform' = dict_of (filter (\<lambda>(k, v). k \<noteq> v)
                                  (zip (rc_prev_overlapped_labels st) overlapped_labels));
          labels = relabel transform' (rc_labels st)
      in \<lparr> rc_new_labels = new_labels, rc_overlapped_labels = overlapped_labels, rc_labels = labels,
           rc_prev_overlapped_labels =
             label_column (filter (\<lambda>(i, x, h, l). i \<ge> start - overlap + 1) labels) \<rparr>)"

partial_function (option) reconcile ::
  "int \<Rightarrow> int \<Rightarrow> reconciliation \<Rightarrow> (error + reconciliation) option" where
  "reconcile start overlap st =
     (case np_ne_any (rc_overlapped_labels st) (rc_prev_overlapped_labels st) of
        Inl e \<Rightarrow> Some (Inl e)
      | Inr differ \<Rightarrow> if differ then reconcile start overlap (reconcile_step start overlap st)
                      else Some (Inr st))"

declare reconcile.simps [code]

text \<open>
  \<open>reconcile\<close> is the loop \<open>while (overlapped_labels != prev_overlapped_labels).any()\<close>; its value
  is \<open>None\<close> when the loop does not end.
\<close>

record labelling =
  lb_labels :: "label_row list"
  lb_prev_overlapped_labels :: "int list option"
  lb_n_objects :: int

definition label_chunk ::
  "int \<Rightarrow> int \<Rightarrow> bool list list list \<Rightarrow> labelling \<Rightarrow> (error + labelling) option" where
  \<comment> \<open>one round of the loop over the chunks\<close>
  "label_chunk overlap start item st =
     (let (chunk_labels, new_objects) = measurements_label item;
          new_labels = map (\<lambda>(i, x, h). (i, x, h, chunk_labels ! nat i ! nat x ! nat h + lb_n_objects st))
                           (np_where3 chunk_labels (\<lambda>l. l \<noteq> 0));
          overlapped_labels = label_column (filter (\<lambda>(i, x, h, l). i < overlap) new_labels)
      in case (case lb_prev_overlapped_labels st of
                 None \<Rightarrow> Some (Inr (new_labels, lb_labels st))
               | Some prev \<Rightarrow>
                   (case reconcile start overlap
                           \<lparr> rc_new_labels = new_labels, rc_overlapped_labels = overlapped_labels,
                             rc_labels = lb_labels st, rc_prev_overlapped_labels = prev \<rparr> of
                      None \<Rightarrow> None
                    | Some (Inl e) \<Rightarrow> Some (Inl e)
                    | Some (Inr r) \<Rightarrow> Some (Inr (rc_new_labels r, rc_labels r)))) of
           None \<Rightarrow> None
         | Some (Inl e) \<Rightarrow> Some (Inl e)
         | Some (Inr (new_labels', labels')) \<Rightarrow>
             (let kept = (if start \<noteq> 0 then filter (\<lambda>(i, x, h, l). i \<ge> overlap) new_labels'
                          else new_labels');
                  labels = labels' @ map (\<lambda>(i, x, h, l). (i + start, x, h, l)) kept
              in Some (Inr \<lparr> lb_labels = labels,
                             lb_prev_overlapped_labels =
                               Some (label_column
                                 (filter (\<lambda>(i, x, h, l). i \<ge> start + int (length item) - overlap) labels)),
                             lb_n_objects = lb_n_objects st + new_objects \<rparr>)))"

fun label_chunks ::
  "int \<Rightarrow> (int \<times> bool list list list) list \<Rightarrow> labelling \<Rightarrow> (error + labelling) option" where
  "label_chunks overlap [] st = Some (Inr st)"
| "label_chunks overlap ((start, item) # chunks) st =
     (case label_chunk overlap start item st of
        None \<Rightarrow> None
      | Some (Inl e) \<Rightarrow> Some (Inl e)
      | Some (Inr st') \<Rightarrow> label_chunks overlap chunks st')"

definition label_mask ::
  "bool list list list \<Rightarrow> int option \<Rightarrow> int \<Rightarrow> (error + label_row list) option" where
  \<comment> \<open>\<open>from_mask\<close> up to the end of the loop over the chunks: the array \<open>labels\<close>\<close>
  "label_mask array chunk_size overlap =
     (let n = int (length array);
          chunk_size' = (case chunk_size of None \<Rightarrow> n | Some c \<Rightarrow> if c = 0 then n else c);
          overlap' = (if chunk_size' = n then 0 else overlap)
      in case py_range 0 n (chunk_size' - overlap') of
           Inl e \<Rightarrow> Some (Inl e)
         | Inr starts \<Rightarrow>
             (case label_chunks overlap'
                     (map (\<lambda>start. (start, py_slice start (start + chunk_size') array)) starts)
                     \<lparr> lb_labels = [], lb_prev_overlapped_labels = None, lb_n_objects = 0 \<rparr> of
                None \<Rightarrow> None
              | Some (Inl e) \<Rightarrow> Some (Inl e)
              | Some (Inr st) \<Rightarrow> Some (Inr (lb_labels st))))"

fun runs :: "('a \<times> int) list \<Rightarrow> 'a list list" where
  "runs [] = []"
| "runs [(a, k)] = [[a]]"
| "runs ((a, k) # (b, l) # rest) =
     (if k = l then (case runs ((b, l) # rest) of g # gs \<Rightarrow> (a # g) # gs | [] \<Rightarrow> [[a]])
      else [a] # runs ((b, l) # rest))"

definition split_array :: "'a list \<Rightarrow> int list \<Rightarrow> 'a list list" where
  \<comment> \<open>Modelled from the spec: \<open>utils.split_array\<close> is not among the sources. Each component is
      the points that share a final label: the rows, sorted by label, are cut into the runs of
      equal labels.\<close>
  "split_array array labels = runs (zip array labels)"

definition np_ptp :: "int list \<Rightarrow> error + int" where
  \<comment> \<open>\<open>a.ptp()\<close>: maximum minus minimum; a zero-size array has neither\<close>
  "np_ptp xs = (if xs = [] then Inl ValueError else Inr (Max (set xs) - Min (set xs)))"

fun faults_sizes :: "voxel list list \<Rightarrow> error + real list" where
  \<comment> \<open>\<open>faults_sizes\<close> of labels/fault_postprocessing.py\<close>
  "faults_sizes [] = Inr []"
| "faults_sizes (array # rest) =
     (case np_ptp (map fst array) of
        Inl e \<Rightarrow> Inl e
      | Inr i_len \<Rightarrow>
          (case np_ptp (map (fst \<circ> snd) array) of
             Inl e \<Rightarrow> Inl e
           | Inr x_len \<Rightarrow>
               (case faults_sizes rest of
                  Inl e \<Rightarrow> Inl e
                | Inr sizes \<Rightarrow> Inr (sqrt (of_int (i_len ^ 2 + x_len ^ 2)) # sizes))))"

definition from_mask ::
  "bool list list list \<Rightarrow> int option \<Rightarrow> real option \<Rightarrow> int \<Rightarrow>
   (error + (real \<times> voxel list) list) option" where
  \<comment> \<open>\<open>Fault.from_mask(array, chunk_size=..., threshold=..., overlap=...)\<close>. The rows are sorted
      by label with \<open>argsort\<close>; an unstable sort of a long array permutes the points inside a
      component only.\<close>
  "from_mask array chunk_size threshold overlap =
     (case label_mask array chunk_size overlap of
        None \<Rightarrow> None
      | Some (Inl e) \<Rightarrow> Some (Inl e)
      | Some (Inr labels) \<Rightarrow>
          (let sorted_rows = map (\<lambda>k. labels ! k) (argsort (label_column labels));
               groups = split_array (map (\<lambda>(i, x, h, l). (i, x, h)) sorted_rows)
                                    (label_column sorted_rows)
           in case faults_sizes groups of
                Inl e \<Rightarrow> Some (Inl e)
              | Inr sizes \<Rightarrow>
                  (let ordered = sort_key (\<lambda>(size, points). - size) (zip sizes groups)
                   in Some (Inr (case threshold of
                                   None \<Rightarrow> ordered
                                 | Some t \<Rightarrow> if t = 0 then ordered
                                             else filter (\<lambda>(size, points). size \<ge> t) ordered)))))"


section \<open>Auxiliary notions of the proofs\<close>

definition rect :: "nat \<Rightarrow> nat \<Rightarrow> 'a list list \<Rightarrow> bool" where
  \<comment> \<open>an array of shape \<open>(n, w)\<close>\<close>
  "rect n w m = (length m = n \<and> list_all (\<lambda>row. length row = w) m)"

definition keyed :: "point list \<Rightarrow> ((int \<times> int) \<times> int) list" where
  \<comment> \<open>a point set as an association list from (axis0, axis1) to depth\<close>
  "keyed ps = map (\<lambda>(i, x, h). ((i, x), h)) ps"

definition in_box :: "int \<Rightarrow> int \<Rightarrow> int \<Rightarrow> int \<Rightarrow> point \<Rightarrow> bool" where
  \<comment> \<open>the point lies in the bounding box given by its origin and lengths\<close>
  "in_box i_min x_min i_length x_length p =
     (case p of (i, x, h) \<Rightarrow> i_min \<le> i \<and> i < i_min + i_length \<and> x_min \<le> x \<and> x < x_min + x_length)"

definition fits_int32 :: "point \<Rightarrow> bool" where
  \<comment> \<open>the coordinates and the depth are int32 values\<close>
  "fits_int32 p = (case p of (i, x, h) \<Rightarrow> in_int32 i \<and> in_int32 x \<and> in_int32 h)"

definition empty_surface :: horizon where
  \<comment> \<open>the surface built from a length-0 point array\<close>
  "empty_surface = new_horizon \<lparr> hz_points := Some [] \<rparr>"






definition small_field :: seismic_field where
  "small_field = \<lparr> field_shape = (2, 2, 10), cube_shape = (2, 2, 10), field_depth = 10,
                    zero_traces = replicate 2 (replicate 2 False) \<rparr>"


section \<open>Coverage of the plane by crop footprints, and test fields\<close>

text \<open>
  The axis0/axis1 footprint of a location is \<open>[i_start, i_stop) \<times> [x_start, x_stop)\<close>; locations
  that differ only in depth share one footprint. \<open>coverage_count a b\<close> is the number of
  distinct footprints that contain the cell \<open>(a, b)\<close>: a tiling has count 1 on every cell of
  the range and 0 elsewhere.
\<close>

definition footprints :: "crop_location list \<Rightarrow> (int \<times> int \<times> int \<times> int) list" where
  "footprints locs = remdups (map (\<lambda>l. (i_start l, i_stop l, x_start l, x_stop l)) locs)"

definition covers :: "int \<Rightarrow> int \<Rightarrow> int \<times> int \<times> int \<times> int \<Rightarrow> bool" where
  "covers a b f = (case f of (i0, i1, x0, x1) \<Rightarrow> i0 \<le> a \<and> a < i1 \<and> x0 \<le> b \<and> b < x1)"

definition coverage_count :: "int \<Rightarrow> int \<Rightarrow> crop_location list \<Rightarrow> nat" where
  "coverage_count a b locs = length (filter (covers a b) (footprints locs))"


definition scenario_field :: seismic_field where
  "scenario_field = \<lparr> field_shape = (50, 60, 40), cube_shape = (50, 60, 40), field_depth = 40,
                       zero_traces = replicate 50 (replicate 60 False) \<rparr>"

definition uneven_field :: seismic_field where
  "uneven_field = \<lparr> field_shape = (3, 2, 1), cube_shape = (3, 2, 1), field_depth = 1,
                     zero_traces = replicate 3 (replicate 2 False) \<rparr>"


definition demo_field :: seismic_field where
  "demo_field = \<lparr> field_shape = (4, 4, 8), cube_shape = (4, 4, 8), field_depth = 8,
                   zero_traces = replicate 4 (replicate 4 False) \<rparr>"

definition demo_horizon :: horizon_view where
  "demo_horizon = \<lparr> hv_presence = replicate 4 (replicate 4 False), hv_boundary = [],
                     hv_i_min = 0, hv_x_min = 0 \<rparr>"


text \<open>
  A grid and two containers for the history of \<open>update_grid\<close>: \<open>loc_of i x\<close> is the location of a
  \<open>4 \<times> 4 \<times> 8\<close> crop with origin \<open>(i, x, 0)\<close>.
\<close>

definition loc_of :: "int \<Rightarrow> int \<Rightarrow> crop_location" where
  "loc_of i x = \<lparr> field_id = - 1, label_id = - 1, orientation = 0,
                  i_start = i, x_start = x, h_start = 0, i_stop = i + 4, x_stop = x + 4, h_stop = 8 \<rparr>"

definition grid_with :: "crop_location list \<Rightarrow> int list \<Rightarrow> extension_grid" where
  "grid_with locs pots =
     \<lparr> eg_crop_shape = (4, 4, 8), eg_batch_size = 64, eg_directions = [''up''],
       eg_locations = locs, eg_potential = pots, eg_uncovered_before = 0, eg_uncovered_best = 0,
       eg_possible = length locs, eg_top_locations = length locs, eg_selected = length locs \<rparr>"

text \<open>
  The four \<open>stride\<close>-wide bands on the sides of a crop footprint cut out of the coverage matrix:
  the first and the last \<open>stride\<close> rows, the first and the last \<open>stride\<close> columns
  (\<open>sliced[:stride, :]\<close>, \<open>sliced[-stride:, :]\<close>, \<open>sliced[:, :stride]\<close>, \<open>sliced[:, -stride:]\<close>), each
  with its number of covered cells.
\<close>

definition side_bands :: "int \<Rightarrow> bool list list \<Rightarrow> int list" where
  "side_bands stride sliced =
     [sum2 (py_slice 0 stride sliced),
      sum2 (py_slice (- stride) (int (length sliced)) sliced),
      sum2 (map (py_slice 0 stride) sliced),
      sum2 (map (\<lambda>r. py_slice (- stride) (int (length r)) r) sliced)]"

definition gap_field :: seismic_field where
  "gap_field = \<lparr> field_shape = (5, 5, 10), cube_shape = (5, 5, 10), field_depth = 10,
                  zero_traces = replicate 5 (replicate 5 False) \<rparr>"

definition gap_horizon :: horizon_view where
  \<comment> \<open>a horizon of two cells, \<open>(1, 1)\<close> and \<open>(2, 2)\<close> of the cube, both at depth 5\<close>
  "gap_horizon = \<lparr> hv_presence = [[False, False, False, False, False],
                                    [False, True, False, False, False],
                                    [False, False, True, False, False],
                                    [False, False, False, False, False],
                                    [False, False, False, False, False]],
                    hv_boundary = [(0, 0, 5), (1, 1, 5)],
                    hv_i_min = 1, hv_x_min = 1 \<rparr>"


text \<open>
  A mask of shape \<open>(6, 2, 2)\<close> with one seed, the cube of the eight voxels of planes 2 and 3.
\<close>

definition cube_mask :: "bool list list list" where
  "cube_mask = [replicate 2 (replicate 2 False), replicate 2 (replicate 2 False),
                replicate 2 (replicate 2 True), replicate 2 (replicate 2 True),
                replicate 2 (replicate 2 False), replicate 2 (replicate 2 False)]"

definition cube_points :: "voxel list" where
  "cube_points = [(2, 0, 0), (2, 0, 1), (2, 1, 0), (2, 1, 1), (3, 0, 0), (3, 0, 1), (3, 1, 0), (3, 1, 1)]"

definition long_mask :: "bool list list list" where
  \<comment> \<open>shape \<open>(8, 2, 2)\<close>, the same cube on planes 3 and 4\<close>
  "long_mask = replicate 3 (replicate 2 (replicate 2 False)) @
               replicate 2 (replicate 2 (replicate 2 True)) @
               replicate 3 (replicate 2 (replicate 2 False))"


section \<open>Verification\<close>

subsection \<open>Configuration errors of the grid constructors\<close>

lemma mode_directions_unrecognized:
  "mode \<notin> set recognized_modes \<Longrightarrow> mode_directions mode = Inl ValueError"
  by (simp add: mode_directions_def recognized_modes_def allowed_directions_def)

lemma RegularGrid_init_conflict:
  assumes "count_given strides overlap overlap_factor > 1"
  shows "RegularGrid_init fld ranges cs ori strides overlap overlap_factor thr bs fid lid locs
           = Inl ValueError"
proof -
  have "count_given (map_option (\<lambda>s. if ori = 0 then s else swap01 s) strides) overlap overlap_factor
          = count_given strides overlap overlap_factor"
    by (simp add: count_given_def)
  with assms show ?thesis
    by (simp add: RegularGrid_init_def Let_def split: prod.splits)
qed

text \<open>
  Claim C9. Constructing a RegularGrid with more than one of \<open>strides\<close>, \<open>overlap\<close>,
  \<open>overlap_factor\<close> given raises the configuration error (a \<open>ValueError\<close>) and builds no
  location, whatever the other arguments are; constructing an ExtensionGrid with a mode
  outside the recognized names raises it as well, before any candidate is made.
\<close>

theorem grid_configuration_errors:
  "(count_given strides overlap overlap_factor > 1 \<longrightarrow>
      RegularGrid_init fld ranges cs ori strides overlap overlap_factor thr bs fid lid locs
        = Inl ValueError) \<and>
   (mode \<notin> set recognized_modes \<longrightarrow>
      ExtensionGrid_init fld hz ecs stride ebs top_k ethr prior_threshold randomize perm mode
        = Inl ValueError)"
  by (simp add: RegularGrid_init_conflict mode_directions_unrecognized ExtensionGrid_init_def)

theorem grid_configuration_errors_witness:
  "count_given (Some (2, 2, 8)) (Some (1, 1, 0)) None > 1 \<and>
   RegularGrid_init demo_field ((0, 4), (0, 4), (0, 8)) (2, 2, 8) 0 (Some (2, 2, 8)) (Some (1, 1, 0))
       None 0 64 (- 1) (- 1) None = Inl ValueError \<and>
   ''diagonal'' \<notin> set recognized_modes \<and>
   ExtensionGrid_init demo_field demo_horizon (2, 2, 8) 1 64 1 4 8 True [0] ''diagonal''
       = Inl ValueError"
proof -
  have a: "count_given (Some (2, 2, 8)) (Some (1, 1, 0)) None > 1"
    by (simp add: count_given_def)
  have b: "''diagonal'' \<notin> set recognized_modes"
    by (simp add: recognized_modes_def)
  show ?thesis
    using a b
      grid_configuration_errors [where strides = "Some (2, 2, 8)" and overlap = "Some (1, 1, 0)"
        and overlap_factor = None and fld = demo_field and ranges = "((0, 4), (0, 4), (0, 8))"
        and cs = "(2, 2, 8)" and ori = 0 and thr = 0 and bs = 64 and fid = "- 1" and lid = "- 1"
        and locs = None and mode = "''diagonal''" and hz = demo_horizon and ecs = "(2, 2, 8)"
        and stride = 1 and ebs = 64 and top_k = 1 and ethr = 4 and prior_threshold = 8
        and randomize = True and perm = "[0]"]
    by simp
qed


subsection \<open>RegularGrid: every location lies inside the volume\<close>

lemma np_arange_Inr: "np_arange a b s = Inr g \<Longrightarrow> s \<noteq> 0"
  by (auto simp: np_arange_def split: if_splits)

lemma arange_clipped_bounds:
  assumes "arange_clipped a b s lmt = Inr g" "0 \<le> lmt" "v \<in> set g"
  shows "0 \<le> v \<and> v \<le> lmt"
  using assms by (auto simp: arange_clipped_def np_clip_def split: sum.splits)

lemma grid_points_mem:
  "(i, x, h) \<in> set (grid_points zt cs thr ig xg hg) \<Longrightarrow> i \<in> set ig \<and> x \<in> set xg \<and> h \<in> set hg"
  by (auto simp: grid_points_def split: if_splits)

lemma RegularGrid_make_locations_bounds:
  assumes "RegularGrid_make_locations fld g = Inr g'"
    and "cube_shape fld = (n0, n1, n2)" and "rg_crop_shape g = (c0, c1, c2)"
    and "c0 \<le> n0" "c1 \<le> n1" "c2 \<le> n2"
    and "l \<in> set (rg_locations g')"
  shows "0 \<le> i_start l \<and> 0 \<le> x_start l \<and> 0 \<le> h_start l \<and>
         i_stop l \<le> n0 \<and> x_stop l \<le> n1 \<and> h_stop l \<le> n2"
proof -
  obtain i0 i1 x0 x1 h0 h1 where r: "rg_ranges g = ((i0, i1), (x0, x1), (h0, h1))"
    by (metis prod.exhaust)
  obtain s0 s1 s2 where s: "rg_strides g = (s0, s1, s2)" by (metis prod.exhaust)
  from assms(1) r s assms(2,3) obtain ig xg hg where
    ig: "arange_clipped i0 i1 s0 (n0 - c0) = Inr ig" and
    xg: "arange_clipped x0 x1 s1 (n1 - c1) = Inr xg" and
    hg: "arange_clipped h0 h1 s2 (n2 - c2) = Inr hg" and
    locs: "rg_locations g' = map (make_location (rg_field_id g) (rg_label_id g) (rg_orientation g) (c0, c1, c2))
             (grid_points (zero_traces fld) (c0, c1, c2) (rg_threshold g) ig xg hg)"
    by (auto simp: RegularGrid_make_locations_def Let_def split: sum.splits if_splits)
  from assms(7) locs obtain i x h where
    p: "(i, x, h) \<in> set (grid_points (zero_traces fld) (c0, c1, c2) (rg_threshold g) ig xg hg)"
    and l: "l = make_location (rg_field_id g) (rg_label_id g) (rg_orientation g) (c0, c1, c2) (i, x, h)"
    by auto
  from grid_points_mem[OF p] have "i \<in> set ig" "x \<in> set xg" "h \<in> set hg" by auto
  with arange_clipped_bounds[OF ig] arange_clipped_bounds[OF xg] arange_clipped_bounds[OF hg] assms(4,5,6)
  have "0 \<le> i \<and> i \<le> n0 - c0" "0 \<le> x \<and> x \<le> n1 - c1" "0 \<le> h \<and> h \<le> n2 - c2" by auto
  then show ?thesis by (simp add: l make_location_def)
qed

text \<open>
  Claim C7. When the crop (in the frame of the grid's orientation) fits into the volume on
  every axis, every location of a built RegularGrid starts at a non-negative coordinate and
  stops at or before the volume extent, on all three axes, for any ranges, strides,
  overlap policy and threshold.
\<close>

theorem regular_grid_locations_inside_volume:
  assumes "RegularGrid_init fld ranges cs ori strides overlap overlap_factor thr bs fid lid None = Inr g"
    and "cube_shape fld = (n0, n1, n2)"
    and "(if ori = 0 then cs else swap01 cs) = (c0, c1, c2)"
    and "c0 \<le> n0" "c1 \<le> n1" "c2 \<le> n2"
    and "l \<in> set (rg_locations g)"
  shows "0 \<le> i_start l \<and> 0 \<le> x_start l \<and> 0 \<le> h_start l \<and>
         i_stop l \<le> n0 \<and> x_stop l \<le> n1 \<and> h_stop l \<le> n2"
proof -
  from assms(1,3) obtain g0 where g0: "RegularGrid_make_locations fld g0 = Inr g"
      "rg_crop_shape g0 = (c0, c1, c2)"
    by (auto simp: RegularGrid_init_def Let_def split: prod.splits if_splits sum.splits)
  show ?thesis
    by (rule RegularGrid_make_locations_bounds[OF g0(1) assms(2) g0(2) assms(4,5,6,7)])
qed

theorem regular_grid_locations_inside_volume_witness:
  "\<exists>g l. RegularGrid_init uneven_field ((0, 3), (0, 2), (0, 1)) (2, 2, 1) 0
            (Some (2, 2, 1)) None None 0 64 (- 1) (- 1) None = Inr g \<and>
         cube_shape uneven_field = (3, 2, 1) \<and> l \<in> set (rg_locations g) \<and>
         0 \<le> i_start l \<and> 0 \<le> x_start l \<and> 0 \<le> h_start l \<and>
         i_stop l \<le> 3 \<and> x_stop l \<le> 2 \<and> h_stop l \<le> 1"
proof -
  have "case RegularGrid_init uneven_field ((0, 3), (0, 2), (0, 1)) (2, 2, 1) 0
            (Some (2, 2, 1)) None None 0 64 (- 1) (- 1) None of
          Inl e \<Rightarrow> False | Inr g \<Rightarrow> rg_locations g \<noteq> []"
    by code_simp
  then obtain g l where g: "RegularGrid_init uneven_field ((0, 3), (0, 2), (0, 1)) (2, 2, 1) 0
            (Some (2, 2, 1)) None None 0 64 (- 1) (- 1) None = Inr g" and l: "l \<in> set (rg_locations g)"
    by (cases "RegularGrid_init uneven_field ((0, 3), (0, 2), (0, 1)) (2, 2, 1) 0
            (Some (2, 2, 1)) None None 0 64 (- 1) (- 1) None")
       (auto simp: neq_Nil_conv, fastforce)
  have cube: "cube_shape uneven_field = (3, 2, 1)" by (simp add: uneven_field_def)
  have cs: "(if (0::int) = 0 then (2, 2, 1) else swap01 (2, 2, 1)) = (2 :: int, 2 :: int, 1 :: int)"
    by simp
  from regular_grid_locations_inside_volume[OF g cube cs _ _ _ l] g cube l
  show ?thesis by auto
qed

subsection \<open>RegularGrid: tiling of the range when strides equal the crop shape\<close>

lemma np_arange_multiple:
  assumes "0 < c"
  shows "np_arange a (a + int m * c) c = Inr (map (\<lambda>k. a + int k * c) [0 ..< m])"
proof -
  have "(a - (a + int m * c)) div c = - int m" using assms by (simp add: zdiv_zminus1_eq_if)
  then show ?thesis using assms by (simp add: np_arange_def)
qed

lemma sorted_arith: "0 < (c::int) \<Longrightarrow> sorted (map (\<lambda>k. a + int k * c) [0 ..< m])"
  by (induction m) (auto simp: sorted_append intro: mult_right_mono)

lemma distinct_arith: "0 < (c::int) \<Longrightarrow> distinct (map (\<lambda>k. a + int k * c) [0 ..< m])"
  by (auto simp: distinct_map inj_on_def)

lemma arange_clipped_multiple:
  assumes "0 < c" "0 \<le> a" "a + int m * c \<le> lmt + c"
  shows "arange_clipped a (a + int m * c) c lmt = Inr (map (\<lambda>k. a + int k * c) [0 ..< m])"
proof -
  have clip: "map (np_clip 0 lmt) (map (\<lambda>k. a + int k * c) [0 ..< m]) = map (\<lambda>k. a + int k * c) [0 ..< m]"
  proof (rule map_idI)
    fix v assume "v \<in> set (map (\<lambda>k. a + int k * c) [0 ..< m])"
    then obtain k where k: "k < m" "v = a + int k * c" by auto
    have "int k * c \<le> (int m - 1) * c" using k(1) assms(1) by (intro mult_right_mono) auto
    then have "v \<le> lmt" using assms(3) k(2) by (simp add: algebra_simps)
    moreover have "0 \<le> v" using assms(1,2) k(2) by simp
    ultimately show "np_clip 0 lmt v = v" by (simp add: np_clip_def)
  qed
  show ?thesis
    unfolding arange_clipped_def np_arange_multiple[OF assms(1)]
    by (simp only: sum.case clip distinct_remdups_id[OF distinct_arith[OF assms(1)]]
                   sorted_sort_id[OF sorted_arith[OF assms(1)]])
qed

lemma cell_unique:
  assumes "0 < (c::int)" "0 \<le> d"
  shows "(int k * c \<le> d \<and> d < int k * c + c) \<longleftrightarrow> k = nat (d div c)"
proof
  assume h: "int k * c \<le> d \<and> d < int k * c + c"
  have "d div c = int k"
    by (rule int_div_pos_eq[where r = "d - int k * c"]) (use h in \<open>auto simp: algebra_simps\<close>)
  then show "k = nat (d div c)" by simp
next
  assume k: "k = nat (d div c)"
  have "0 \<le> d div c" using assms by (simp add: pos_imp_zdiv_nonneg_iff)
  then have ik: "int k = d div c" using k by simp
  have "d div c * c + d mod c = d" by simp
  moreover have "0 \<le> d mod c" "d mod c < c" using assms by auto
  ultimately show "int k * c \<le> d \<and> d < int k * c + c" unfolding ik by linarith
qed

lemma grid_points_all_alive:
  assumes "\<And>i x. i \<in> set ig \<Longrightarrow> x \<in> set xg \<Longrightarrow> thr < of_int (alive_traces zt cs i x)"
  shows "grid_points zt cs thr ig xg hg =
           concat (map (\<lambda>(i, x). map (\<lambda>h. (i, x, h)) hg) (List.product ig xg))"
  unfolding grid_points_def
  by (rule arg_cong[where f = concat], rule map_cong) (use assms in auto)

lemma length_all_points:
  "length (concat (map (\<lambda>(i, x). map (\<lambda>h. (i, x, h)) hg) (List.product ig xg)))
     = length ig * length xg * length hg"
proof -
  have "map length (map (\<lambda>(i, x). map (\<lambda>h. (i, x, h)) hg) (List.product ig xg))
          = replicate (length ig * length xg) (length hg)"
    by (auto simp: map_replicate_const[symmetric] simp del: map_replicate_const
             intro!: nth_equalityI) (simp add: case_prod_beta)
  then show ?thesis by (simp add: length_concat sum_list_replicate)
qed

lemma set_all_points:
  "set (concat (map (\<lambda>(i, x). map (\<lambda>h. (i, x, h)) hg) (List.product ig xg)))
     = {(i, x, h) | i x h. i \<in> set ig \<and> x \<in> set xg \<and> h \<in> set hg}"
  by auto

lemma count_footprints:
  "coverage_count a b locs
     = card {f \<in> (\<lambda>l. (i_start l, i_stop l, x_start l, x_stop l)) ` set locs. covers a b f}"
proof -
  have "distinct (filter (covers a b) (footprints locs))" by (simp add: footprints_def)
  from distinct_card[OF this] show ?thesis
    by (simp add: coverage_count_def footprints_def Collect_conj_eq Int_commute)
qed

lemma py_slice_replicate:
  assumes "0 \<le> a" "a \<le> b" "b \<le> int n"
  shows "py_slice a b (replicate n v) = replicate (nat (b - a)) v"
proof -
  have "slice_bound n a = nat a" "slice_bound n b = nat b"
    using assms by (auto simp: slice_bound_def)
  then show ?thesis using assms by (auto simp: py_slice_def Let_def min_def nat_diff_distrib)
qed

lemma alive_traces_all_alive:
  assumes "0 \<le> i" "0 \<le> c0" "i + c0 \<le> int r" "0 \<le> x" "0 \<le> c1" "x + c1 \<le> int w"
  shows "alive_traces (replicate r (replicate w False)) (c0, c1, c2) i x = c0 * c1"
proof -
  have "slice2 i (i + c0) x (x + c1) (replicate r (replicate w False))
          = replicate (nat c0) (replicate (nat c1) False)"
    using assms by (simp add: slice2_def py_slice_replicate)
  then show ?thesis using assms
    by (simp add: alive_traces_def size2_def sum2_def sum_list_replicate)
qed


lemma arange_clipped_nonempty:
  assumes "0 < c" "a < b"
  shows "\<exists>g. arange_clipped a b c lmt = Inr g \<and> g \<noteq> []"
proof -
  have "(a - b) div c < 0" using assms by (simp add: div_neg_pos_less0)
  then have "0 < nat (- ((a - b) div c))" by simp
  then have "map (np_clip 0 lmt) (map (\<lambda>k. a + int k * c) [0 ..< nat (- ((a - b) div c))]) \<noteq> []"
    (is "?ys \<noteq> []") by simp
  then have "set (sort (remdups ?ys)) \<noteq> {}" by (simp del: map_map)
  then have "sort (remdups ?ys) \<noteq> []" by (metis set_empty)
  then show ?thesis using assms(1)
    by (simp add: arange_clipped_def np_arange_def)
qed

lemma lattice_cover:
  assumes "0 < (c::int)"
  shows "(\<exists>k<m. v = a + int k * c \<and> v \<le> t \<and> t < v + c) \<longleftrightarrow>
         (a \<le> t \<and> t < a + int m * c \<and> v = a + int (nat ((t - a) div c)) * c)"
proof
  assume "\<exists>k<m. v = a + int k * c \<and> v \<le> t \<and> t < v + c"
  then obtain k where k: "k < m" "v = a + int k * c" "v \<le> t" "t < v + c" by auto
  have d: "0 \<le> t - a" using k assms by (smt (verit) mult_nonneg_nonneg of_nat_0_le_iff)
  have "int k * c \<le> t - a \<and> t - a < int k * c + c" using k by auto
  then have kk: "k = nat ((t - a) div c)" using cell_unique[OF assms d] by blast
  have "int (Suc k) * c \<le> int m * c" using k(1) assms by (intro mult_right_mono) auto
  then have "t < a + int m * c" using k by (simp add: algebra_simps)
  then show "a \<le> t \<and> t < a + int m * c \<and> v = a + int (nat ((t - a) div c)) * c"
    using d k(2) kk by auto
next
  assume h: "a \<le> t \<and> t < a + int m * c \<and> v = a + int (nat ((t - a) div c)) * c"
  define k where "k = nat ((t - a) div c)"
  have d: "0 \<le> t - a" using h by simp
  have b: "int k * c \<le> t - a \<and> t - a < int k * c + c"
    using cell_unique[OF assms d, of k] k_def by blast
  have "k < m"
  proof (rule ccontr)
    assume "\<not> k < m"
    then have "int m * c \<le> int k * c" using assms by (intro mult_right_mono) auto
    with b h show False by linarith
  qed
  then show "\<exists>k<m. v = a + int k * c \<and> v \<le> t \<and> t < v + c"
    using b h k_def by (intro exI[of _ k]) auto
qed


text \<open>
  Claim C5 as stated fails: with strides equal to the crop shape and threshold 0, a volume
  whose extent is not a multiple of the crop shape gets its last window clipped back onto the
  previous one. On a volume of shape (3, 2, 1) with crops of shape (2, 2, 1) the windows start
  at 0 and 1 on axis0, and the cell (1, 0) lies in two footprints.
\<close>

theorem regular_grid_overlap_counterexample:
  "(case RegularGrid_init uneven_field ((0, 3), (0, 2), (0, 1)) (2, 2, 1) 0
           (Some (2, 2, 1)) None None 0 64 (- 1) (- 1) None of
      Inl e \<Rightarrow> False
    | Inr g \<Rightarrow> coverage_count 1 0 (rg_locations g) = 2)"
  by code_simp

text \<open>
  Claim C5, amended. Let the range lie inside the volume, start at a non-negative origin and
  have axis0 and axis1 extents that are positive multiples \<open>m0\<close>, \<open>m1\<close> of the crop shape; let
  the depth range be non-empty and every crop of the lattice contain at least one live trace.
  Then a RegularGrid with threshold 0 and strides equal to the crop shape is built, it has
  \<open>m0 * m1\<close> locations per depth start, and every cell of the plane lies in exactly one
  footprint if it is in the range and in none otherwise. For the volume (50, 60, 40) with
  crops (10, 10, 40) this gives 30 locations.
\<close>

theorem regular_grid_tiles_range:
  assumes cube: "cube_shape fld = (n0, n1, n2)"
    and cs: "(if ori = 0 then cs else swap01 cs) = (c0, c1, c2)"
    and pos: "0 < c0" "0 < c1" "0 < c2"
    and st: "strides = None \<or> strides = Some cs"
    and i: "0 \<le> i0" "i1 = i0 + int m0 * c0" "i1 \<le> n0" "0 < m0"
    and x: "0 \<le> x0" "x1 = x0 + int m1 * c1" "x1 \<le> n1" "0 < m1"
    and h: "h0 < h1"
    and alive: "\<forall>k0<m0. \<forall>k1<m1.
                  0 < alive_traces (zero_traces fld) (c0, c1, c2) (i0 + int k0 * c0) (x0 + int k1 * c1)"
  shows "\<exists>g h_grid.
           RegularGrid_init fld ((i0, i1), (x0, x1), (h0, h1)) cs ori strides None None 0 bs fid lid None
             = Inr g \<and>
           arange_clipped h0 h1 c2 (n2 - c2) = Inr h_grid \<and>
           length (rg_locations g) = m0 * m1 * length h_grid \<and>
           (\<forall>a b. coverage_count a b (rg_locations g)
                    = (if i0 \<le> a \<and> a < i1 \<and> x0 \<le> b \<and> b < x1 then 1 else 0))"
proof -
  define ig where "ig = map (\<lambda>k. i0 + int k * c0) [0 ..< m0]"
  define xg where "xg = map (\<lambda>k. x0 + int k * c1) [0 ..< m1]"
  obtain hg where hg: "arange_clipped h0 h1 c2 (n2 - c2) = Inr hg" "hg \<noteq> []"
    using arange_clipped_nonempty[OF pos(3) h] by blast
  have igE: "arange_clipped i0 i1 c0 (n0 - c0) = Inr ig"
    unfolding ig_def i(2) by (rule arange_clipped_multiple) (use pos i in auto)
  have xgE: "arange_clipped x0 x1 c1 (n1 - c1) = Inr xg"
    unfolding xg_def x(2) by (rule arange_clipped_multiple) (use pos x in auto)
  have strides': "resolve_strides (c0, c1, c2) (map_option (\<lambda>s. if ori = 0 then s else swap01 s) strides)
                    None None = Inr (c0, c1, c2)"
    using st cs by (auto simp: resolve_strides_def)
  define pts where "pts = concat (map (\<lambda>(i, x). map (\<lambda>h. (i, x, h)) hg) (List.product ig xg))"
  have gp: "grid_points (zero_traces fld) (c0, c1, c2) 0 ig xg hg = pts"
    unfolding pts_def
    by (rule grid_points_all_alive) (use alive in \<open>auto simp: ig_def xg_def\<close>)
  have len: "length pts = m0 * m1 * length hg"
    unfolding pts_def length_all_points by (simp add: ig_def xg_def)
  then have ne: "pts \<noteq> []" using i(4) x(4) hg(2) by auto
  define g where "g = \<lparr> rg_ranges = ((i0, i1), (x0, x1), (h0, h1)),
                         rg_origin = (i0, x0, h0), rg_endpoint = (i1, x1, h1),
                         rg_shape = (i1 - i0, x1 - x0, h1 - h0),
                         rg_strides = (c0, c1, c2), rg_threshold = 0,
                         rg_field_id = fid, rg_label_id = lid, rg_orientation = ori,
                         rg_crop_shape = (c0, c1, c2), rg_batch_size = bs,
                         rg_unfiltered_length = length ig * length xg * length hg,
                         rg_locations = map (make_location fid lid ori (c0, c1, c2)) pts \<rparr>"
  have cnt: "count_given (map_option (\<lambda>s. if ori = 0 then s else swap01 s) strides) None None \<le> 1"
    by (simp add: count_given_def)
  have init: "RegularGrid_init fld ((i0, i1), (x0, x1), (h0, h1)) cs ori strides None None 0 bs fid lid None
                = Inr g"
    using cnt cs strides' igE xgE hg(1) gp ne cube
    by (simp add: RegularGrid_init_def RegularGrid_make_locations_def Let_def g_def)
  have locs: "rg_locations g = map (make_location fid lid ori (c0, c1, c2)) pts" by (simp add: g_def)
  have fp: "(\<lambda>l. (i_start l, i_stop l, x_start l, x_stop l)) ` set (rg_locations g)
              = {(i, i + c0, x, x + c1) | i x. i \<in> set ig \<and> x \<in> set xg}" (is "?L = ?R")
  proof -
    obtain h where hh: "h \<in> set hg" using hg(2) by (cases hg) auto
    have "?L = (\<lambda>(i, x, h). (i, i + c0, x, x + c1)) ` set pts"
      by (auto simp: locs make_location_def image_image case_prod_beta intro!: image_cong)
    also have "set pts = {(i, x, h) | i x h. i \<in> set ig \<and> x \<in> set xg \<and> h \<in> set hg}"
      unfolding pts_def by (rule set_all_points)
    also have "(\<lambda>(i, x, h). (i, i + c0, x, x + c1)) ` \<dots> = ?R"
      using hh by (auto simp: image_def)
    finally show ?thesis .
  qed
  have count: "coverage_count a b (rg_locations g)
                 = (if i0 \<le> a \<and> a < i1 \<and> x0 \<le> b \<and> b < x1 then 1 else 0)" for a b
  proof -
    have "{f \<in> ?R. covers a b f}
            = {(i, i + c0, x, x + c1) | i x.
                 (\<exists>k<m0. i = i0 + int k * c0 \<and> i \<le> a \<and> a < i + c0) \<and>
                 (\<exists>k<m1. x = x0 + int k * c1 \<and> x \<le> b \<and> b < x + c1)}"
      by (auto simp: covers_def ig_def xg_def)
    also have "\<dots> = {(i, i + c0, x, x + c1) | i x.
                 (i0 \<le> a \<and> a < i1 \<and> i = i0 + int (nat ((a - i0) div c0)) * c0) \<and>
                 (x0 \<le> b \<and> b < x1 \<and> x = x0 + int (nat ((b - x0) div c1)) * c1)}"
      unfolding lattice_cover[OF pos(1)] lattice_cover[OF pos(2)] i(2) x(2) ..
    also have "\<dots> = (if i0 \<le> a \<and> a < i1 \<and> x0 \<le> b \<and> b < x1
                      then {(i0 + int (nat ((a - i0) div c0)) * c0, i0 + int (nat ((a - i0) div c0)) * c0 + c0,
                             x0 + int (nat ((b - x0) div c1)) * c1, x0 + int (nat ((b - x0) div c1)) * c1 + c1)}
                      else {})"
      by auto
    finally show ?thesis
      unfolding count_footprints fp by (simp split: if_splits)
  qed
  show ?thesis
    using init hg(1) len count by (intro exI[of _ g] exI[of _ hg]) (simp add: locs)
qed

theorem regular_grid_tiles_range_witness:
  "\<exists>g. RegularGrid_init scenario_field ((0, 50), (0, 60), (0, 40)) (10, 10, 40) 0
           (Some (10, 10, 40)) None None 0 64 (- 1) (- 1) None = Inr g \<and>
        length (rg_locations g) = 30 \<and>
        (\<forall>a b. coverage_count a b (rg_locations g)
                 = (if 0 \<le> a \<and> a < 50 \<and> 0 \<le> b \<and> b < 60 then 1 else 0))"
proof -
  have alive: "\<forall>k0<5. \<forall>k1<6.
      0 < alive_traces (zero_traces scenario_field) (10, 10, 40) (0 + int k0 * 10) (0 + int k1 * 10)"
  proof (intro allI impI)
    fix k0 k1 :: nat assume "k0 < 5" "k1 < 6"
    then have "alive_traces (replicate 50 (replicate 60 False)) (10, 10, 40) (int k0 * 10) (int k1 * 10)
                 = 10 * 10"
      by (intro alive_traces_all_alive) auto
    then show "0 < alive_traces (zero_traces scenario_field) (10, 10, 40) (0 + int k0 * 10) (0 + int k1 * 10)"
      by (simp add: scenario_field_def)
  qed
  have hg: "arange_clipped 0 40 40 (40 - 40) = Inr [0]"
    by (simp add: arange_clipped_def np_arange_def np_clip_def)
  have cube: "cube_shape scenario_field = (50, 60, 40)" by (simp add: scenario_field_def)
  have cs: "(if (0::int) = 0 then (10, 10, 40) else swap01 (10, 10, 40)) = (10 :: int, 10 :: int, 40 :: int)"
    by simp
  have st: "Some (10, 10, 40) = None \<or> Some (10, 10, 40) = Some (10 :: int, 10 :: int, 40 :: int)"
    by simp
  note inst = regular_grid_tiles_range [where ?m0.0 = 5 and ?m1.0 = 6 and ?h0.0 = 0 and ?h1.0 = 40
      and bs = 64 and fid = "- 1" and lid = "- 1", OF cube cs _ _ _ st _ _ _ _ _ _ _ _ _ alive]
  have "\<exists>g h_grid.
    RegularGrid_init scenario_field ((0, 50), (0, 60), (0, 40)) (10, 10, 40) 0
           (Some (10, 10, 40)) None None 0 64 (- 1) (- 1) None = Inr g \<and>
    arange_clipped 0 40 40 (40 - 40) = Inr h_grid \<and>
    length (rg_locations g) = 5 * 6 * length h_grid \<and>
    (\<forall>a b. coverage_count a b (rg_locations g)
                 = (if 0 \<le> a \<and> a < 50 \<and> 0 \<le> b \<and> b < 60 then 1 else 0))"
    by (rule inst) simp_all
  then obtain g h_grid where
    "RegularGrid_init scenario_field ((0, 50), (0, 60), (0, 40)) (10, 10, 40) 0
           (Some (10, 10, 40)) None None 0 64 (- 1) (- 1) None = Inr g"
    "arange_clipped 0 40 40 (40 - 40) = Inr h_grid"
    "length (rg_locations g) = 5 * 6 * length h_grid"
    "\<forall>a b. coverage_count a b (rg_locations g)
                 = (if 0 \<le> a \<and> a < 50 \<and> 0 \<le> b \<and> b < 60 then 1 else 0)"
    by blast
  with hg show ?thesis by auto
qed


subsection \<open>Horizon: the round trip between points and matrix\<close>

lemma rect_nth: "rect n w m \<Longrightarrow> r < n \<Longrightarrow> length (m ! r) = w"
  by (auto simp: rect_def list_all_length)

lemma rect_width: "rect n w m \<Longrightarrow> 0 < n \<Longrightarrow> width m = w"
  by (cases m) (auto simp: rect_def width_def)

lemma rect_update: "rect n w m \<Longrightarrow> r < n \<Longrightarrow> c < w \<Longrightarrow> rect n w (m[r := (m ! r)[c := h]])"
  by (auto simp: rect_def list_all_length nth_list_update)

lemma enumerate0_nth: "enumerate0 xs = map (\<lambda>k. (int k, xs ! k)) [0 ..< length xs]"
  by (auto simp: enumerate0_def intro!: nth_equalityI)

lemma concat_map_if:
  "concat (map (\<lambda>x. if P x then [f x] else []) xs) = map f (filter P xs)"
  by (induction xs) auto

lemma matrix_to_points_product:
  assumes "rect n w m"
  shows "matrix_to_points m
           = map (\<lambda>(r, c). (int r, int c, m ! r ! c))
               (filter (\<lambda>(r, c). m ! r ! c \<noteq> FILL_VALUE) (List.product [0 ..< n] [0 ..< w]))"
proof -
  have len: "length m = n" using assms by (simp add: rect_def)
  have inner: "(\<lambda>(r, row). concat (map (\<lambda>(c, v). if v \<noteq> FILL_VALUE then [(r, c, v)] else []) (enumerate0 row)))
                 (int r, m ! r)
               = map (\<lambda>(r, c). (int r, int c, m ! r ! c))
                   (filter (\<lambda>(r, c). m ! r ! c \<noteq> FILL_VALUE) (map (Pair r) [0 ..< w]))"
    if "r < n" for r
  proof -
    have "concat (map (\<lambda>(c, v). if v \<noteq> FILL_VALUE then [(int r, c, v)] else []) (enumerate0 (m ! r)))
            = concat (map (\<lambda>k. if m ! r ! k \<noteq> FILL_VALUE then [(int r, int k, m ! r ! k)] else []) [0 ..< w])"
      by (simp add: enumerate0_nth rect_nth[OF assms that] comp_def)
    also have "\<dots> = map (\<lambda>k. (int r, int k, m ! r ! k)) (filter (\<lambda>k. m ! r ! k \<noteq> FILL_VALUE) [0 ..< w])"
      by (rule concat_map_if)
    also have "\<dots> = map (\<lambda>(r, c). (int r, int c, m ! r ! c))
                   (filter (\<lambda>(r, c). m ! r ! c \<noteq> FILL_VALUE) (map (Pair r) [0 ..< w]))"
      by (simp add: filter_map comp_def)
    finally show ?thesis by simp
  qed
  have "matrix_to_points m
          = concat (map (\<lambda>r. map (\<lambda>(r, c). (int r, int c, m ! r ! c))
                   (filter (\<lambda>(r, c). m ! r ! c \<noteq> FILL_VALUE) (map (Pair r) [0 ..< w]))) [0 ..< n])"
    unfolding matrix_to_points_def enumerate0_nth[of m] len map_map comp_def
    by (rule arg_cong[where f = concat], rule map_cong) (use inner in auto)
  also have "\<dots> = map (\<lambda>(r, c). (int r, int c, m ! r ! c))
               (filter (\<lambda>(r, c). m ! r ! c \<noteq> FILL_VALUE) (List.product [0 ..< n] [0 ..< w]))"
    by (simp add: List.product_concat_map map_concat filter_concat comp_def)
  finally show ?thesis .
qed

lemma distinct_matrix_to_points:
  assumes "rect n w m"
  shows "distinct (matrix_to_points m)"
  unfolding matrix_to_points_product[OF assms]
  by (auto simp: distinct_map distinct_product inj_on_def)

lemma set_matrix_to_points:
  assumes "rect n w m"
  shows "set (matrix_to_points m)
           = {(int r, int c, m ! r ! c) | r c. r < n \<and> c < w \<and> m ! r ! c \<noteq> FILL_VALUE}"
  unfolding matrix_to_points_product[OF assms] by auto

lemma np_index_in_range: "0 \<le> k \<Longrightarrow> k < int n \<Longrightarrow> np_index n k = Some (nat k)"
  by (simp add: np_index_def)


lemma int32_id: "in_int32 v \<Longrightarrow> int32 v = v"
  by (simp add: int32_def in_int32_def)

lemma int32_add_right: "int32 (a + int32 b) = int32 (a + b)"
proof -
  have "(a + ((b + 2 ^ 31) mod 2 ^ 32 - 2 ^ 31) + 2 ^ 31) mod (2 ^ 32 :: int)
          = (a + (b + 2 ^ 31) mod 2 ^ 32) mod 2 ^ 32"
    by (simp add: algebra_simps)
  also have "\<dots> = (a + (b + 2 ^ 31)) mod 2 ^ 32"
    by (rule mod_add_right_eq)
  finally show ?thesis by (simp add: int32_def algebra_simps)
qed

lemma index_diff_id:
  assumes "in_int32 c" "0 \<le> c - lo" "c - lo < 2 ^ 31"
  shows "index_diff c lo = c - lo"
  using assms by (simp add: index_diff_def int32_id in_int32_def)

lemma scatter_cells:
  assumes "rect n w m"
    and "list_all (in_box i_min x_min (int n) (int w)) ps"
    and "distinct (map fst (keyed ps))"
    and "list_all fits_int32 ps"
    and "int n \<le> 2 ^ 31" "int w \<le> 2 ^ 31"
  shows "\<exists>m'. scatter ps i_min x_min m = Inr m' \<and> rect n w m' \<and>
           (\<forall>r<n. \<forall>c<w. m' ! r ! c =
              (case map_of (keyed ps) (int r + i_min, int c + x_min) of
                 Some h \<Rightarrow> h | None \<Rightarrow> m ! r ! c))"
  using assms
proof (induction ps arbitrary: m)
  case Nil
  then show ?case by (simp add: keyed_def)
next
  case (Cons p ps)
  obtain i x h where p: "p = (i, x, h)" by (cases p) auto
  from Cons.prems(2) have rest: "list_all (in_box i_min x_min (int n) (int w)) ps"
    and "in_box i_min x_min (int n) (int w) p" by simp_all
  then have box: "i_min \<le> i" "i < i_min + int n" "x_min \<le> x" "x < x_min + int w"
    by (simp_all add: in_box_def p)
  from Cons.prems(4) have fits_rest: "list_all fits_int32 ps" and "fits_int32 p" by simp_all
  then have fits: "in_int32 i" "in_int32 x" "in_int32 h"
    by (simp_all add: fits_int32_def p)
  have diffs: "index_diff i i_min = i - i_min" "index_diff x x_min = x - x_min"
    using box fits Cons.prems(5,6) by (auto intro!: index_diff_id)
  define r0 where "r0 = nat (i - i_min)"
  define c0 where "c0 = nat (x - x_min)"
  have r0: "r0 < n" "int r0 = i - i_min" and c0: "c0 < w" "int c0 = x - x_min"
    using box by (auto simp: r0_def c0_def)
  have npos: "0 < n" using r0 by simp
  have idx: "np_index (length m) (index_diff i i_min) = Some r0"
    "np_index (width m) (index_diff x x_min) = Some c0"
    using box Cons.prems(1) rect_width[OF Cons.prems(1) npos]
    unfolding diffs by (auto simp: np_index_in_range r0_def c0_def rect_def)
  define m1 where "m1 = m[r0 := (m ! r0)[c0 := h]]"
  have rect1: "rect n w m1" unfolding m1_def by (rule rect_update[OF Cons.prems(1) r0(1) c0(1)])
  have kp: "keyed (p # ps) = ((i, x), h) # keyed ps" by (simp add: keyed_def p)
  have dist: "distinct (map fst (keyed ps))" and fresh: "(i, x) \<notin> fst ` set (keyed ps)"
    using Cons.prems(3) unfolding kp by simp_all
  from Cons.IH[OF rect1 rest dist fits_rest Cons.prems(5,6)] obtain m' where
    m': "scatter ps i_min x_min m1 = Inr m'" "rect n w m'"
    and cells: "\<And>r c. r < n \<Longrightarrow> c < w \<Longrightarrow> m' ! r ! c =
              (case map_of (keyed ps) (int r + i_min, int c + x_min) of
                 Some h \<Rightarrow> h | None \<Rightarrow> m1 ! r ! c)"
    by blast
  have step: "scatter (p # ps) i_min x_min m = scatter ps i_min x_min m1"
    by (simp add: p idx m1_def int32_id[OF fits(3)])
  have "m' ! r ! c = (case map_of (keyed (p # ps)) (int r + i_min, int c + x_min) of
                         Some h \<Rightarrow> h | None \<Rightarrow> m ! r ! c)" if rc: "r < n" "c < w" for r c
  proof (cases "(int r + i_min, int c + x_min) = (i, x)")
    case True
    then have eq: "r = r0" "c = c0" using r0 c0 by auto
    have "map_of (keyed ps) (i, x) = None" using fresh by (simp add: map_of_eq_None_iff)
    moreover have "m1 ! r0 ! c0 = h"
      using r0(1) c0(1) Cons.prems(1) rect_nth[OF Cons.prems(1) r0(1)]
      by (simp add: m1_def rect_def)
    ultimately show ?thesis using cells[OF rc] True eq by (simp add: kp)
  next
    case False
    then have ne: "r \<noteq> r0 \<or> c \<noteq> c0" using r0 c0 by auto
    have lm: "length m = n" using Cons.prems(1) by (simp add: rect_def)
    have "m1 ! r ! c = m ! r ! c"
    proof (cases "r = r0")
      case True
      with ne have "c \<noteq> c0" by simp
      then show ?thesis using True r0(1) lm by (simp add: m1_def)
    next
      case False
      then show ?thesis by (simp add: m1_def)
    qed
    then show ?thesis using cells[OF rc] False by (auto simp: kp split: option.splits)
  qed
  with m' step show ?case by auto
qed

lemma keyed_fst: "map fst (keyed ps) = map (\<lambda>(i, x, h). (i, x)) ps"
  by (simp add: keyed_def case_prod_beta comp_def)

lemma keyed_mem: "((i, x), h) \<in> set (keyed ps) \<longleftrightarrow> (i, x, h) \<in> set ps"
  by (force simp: keyed_def)

lemma rect_replicate: "rect n w (replicate n (replicate w v))"
  by (simp add: rect_def list_all_length)


text \<open>
  Claim C1. For a point set of int32 coordinates and depths, with pairwise distinct
  (axis0, axis1) keys, depths other than \<open>FILL_VALUE\<close> and coordinates inside the box
  \<open>[i_min, i_min + i_length) \<times> [x_min, x_min + x_length)\<close>, whose lengths are at most \<open>2^31\<close>,
  \<open>points_to_matrix\<close> succeeds, and \<open>matrix_to_points\<close> of the result, shifted back by
  \<open>(i_min, x_min)\<close>, is the same multiset of points.
\<close>

theorem points_matrix_roundtrip:
  assumes keys: "distinct (map (\<lambda>(i, x, h). (i, x)) P)"
    and nofill: "list_all (\<lambda>(i, x, h). h \<noteq> FILL_VALUE) P"
    and box: "list_all (in_box i_min x_min i_length x_length) P"
    and fits: "list_all fits_int32 P"
    and len: "0 \<le> i_length" "0 \<le> x_length"
    and dims: "i_length \<le> 2 ^ 31" "x_length \<le> 2 ^ 31"
  shows "\<exists>m. points_to_matrix P i_min x_min i_length x_length = Inr m \<and>
             mset (shift_points i_min x_min (matrix_to_points m)) = mset P"
proof -
  define n where "n = nat i_length"
  define w where "w = nat x_length"
  have nw: "int n = i_length" "int w = x_length" using len by (simp_all add: n_def w_def)
  define m0 where "m0 = replicate n (replicate w FILL_VALUE)"
  have r0: "rect n w m0" unfolding m0_def by (rule rect_replicate)
  have dk: "distinct (map fst (keyed P))" using keys by (simp add: keyed_fst)
  have small: "int n \<le> 2 ^ 31" "int w \<le> 2 ^ 31" using dims nw by simp_all
  from scatter_cells[OF r0 _ dk fits small, of i_min x_min] box nw
  obtain m where m: "scatter P i_min x_min m0 = Inr m" "rect n w m"
    and cells: "\<And>r c. r < n \<Longrightarrow> c < w \<Longrightarrow> m ! r ! c =
              (case map_of (keyed P) (int r + i_min, int c + x_min) of
                 Some h \<Rightarrow> h | None \<Rightarrow> m0 ! r ! c)"
    by auto
  have ptm: "points_to_matrix P i_min x_min i_length x_length = Inr m"
    using len m(1) by (simp add: points_to_matrix_def m0_def n_def w_def)
  have origin: "(int r + i_min, int c + x_min, m ! r ! c) \<in> set P"
    if rc: "r < n" "c < w" "m ! r ! c \<noteq> FILL_VALUE" for r c
  proof -
    have "m0 ! r ! c = FILL_VALUE" using rc by (simp add: m0_def)
    with cells[OF rc(1,2)] rc(3) obtain h where
      "map_of (keyed P) (int r + i_min, int c + x_min) = Some h" "m ! r ! c = h"
      by (auto split: option.splits)
    then show ?thesis by (auto dest!: map_of_SomeD simp: keyed_mem)
  qed
  let ?U = "map (\<lambda>(r, c, h). (r + i_min, c + x_min, h)) (matrix_to_points m)"
  let ?L = "shift_points i_min x_min (matrix_to_points m)"
  have pt: "(\<lambda>(r, c, h). (int32 (int32 r + int32 i_min), int32 (int32 c + int32 x_min), int32 h)) q
              = (\<lambda>(r, c, h). (r + i_min, c + x_min, h)) q"
    if "q \<in> set (matrix_to_points m)" for q
  proof -
    from that obtain r c where rc: "r < n" "c < w" "m ! r ! c \<noteq> FILL_VALUE"
      and q: "q = (int r, int c, m ! r ! c)"
      unfolding set_matrix_to_points[OF m(2)] by blast
    from origin[OF rc] fits have f: "in_int32 (int r + i_min)" "in_int32 (int c + x_min)"
      "in_int32 (m ! r ! c)"
      by (auto simp: list_all_iff fits_int32_def)
    have rr: "in_int32 (int r)" "in_int32 (int c)"
      using rc(1,2) small by (simp_all add: in_int32_def)
    have "int32 (int32 (int r) + int32 i_min) = int r + i_min"
      "int32 (int32 (int c) + int32 x_min) = int c + x_min"
      using f rr by (simp_all add: int32_id int32_add_right)
    then show ?thesis using f(3) by (simp add: q int32_id)
  qed
  have same: "?L = ?U"
    unfolding shift_points_def by (rule list.map_cong0) (rule pt)
  have dL: "distinct ?U"
    using distinct_matrix_to_points[OF m(2)]
    by (auto simp: distinct_map inj_on_def)
  have dP: "distinct P" using keys by (rule distinct_map[THEN iffD1, THEN conjunct1])
  have setL: "set ?U = {(int r + i_min, int c + x_min, m ! r ! c) | r c.
                          r < n \<and> c < w \<and> m ! r ! c \<noteq> FILL_VALUE}"
    unfolding set_map set_matrix_to_points[OF m(2)] by force
  have "set ?U = set P"
  proof (intro set_eqI iffI)
    fix p assume "p \<in> set ?U"
    then obtain r c where rc: "r < n" "c < w" "m ! r ! c \<noteq> FILL_VALUE"
      and p: "p = (int r + i_min, int c + x_min, m ! r ! c)"
      unfolding setL by blast
    from origin[OF rc] show "p \<in> set P" by (simp add: p)
  next
    fix p assume pP: "p \<in> set P"
    obtain i x h where p: "p = (i, x, h)" by (cases p) auto
    from pP box nofill have b: "i_min \<le> i" "i < i_min + i_length" "x_min \<le> x" "x < x_min + x_length"
      and hf: "h \<noteq> FILL_VALUE"
      by (auto simp: list_all_iff in_box_def p)
    define r where "r = nat (i - i_min)"
    define c where "c = nat (x - x_min)"
    have rc: "r < n" "c < w" "int r + i_min = i" "int c + x_min = x"
      using b nw by (auto simp: r_def c_def)
    have "map_of (keyed P) (i, x) = Some h"
      using dk pP p by (intro map_of_is_SomeI) (auto simp: keyed_mem)
    then have "m ! r ! c = h" using cells[OF rc(1,2)] rc by simp
    then show "p \<in> set ?U" unfolding setL using rc hf p by force
  qed
  then have "mset ?U = mset P" using set_eq_iff_mset_eq_distinct[OF dL dP] by blast
  with ptm same show ?thesis by auto
qed

theorem points_matrix_roundtrip_witness:
  "distinct (map (\<lambda>(i, x, h). (i, x)) ([(2, 3, 100), (3, 5, 120)] :: point list)) \<and>
   list_all (\<lambda>(i, x, h). h \<noteq> FILL_VALUE) [(2, 3, 100), (3, 5, 120)] \<and>
   list_all (in_box 2 3 2 3) [(2, 3, 100), (3, 5, 120)] \<and>
   list_all fits_int32 [(2, 3, 100), (3, 5, 120)] \<and>
   (\<exists>m. points_to_matrix [(2, 3, 100), (3, 5, 120)] 2 3 2 3 = Inr m \<and>
        mset (shift_points 2 3 (matrix_to_points m)) = mset [(2, 3, 100), (3, 5, 120)])"
proof -
  have a: "distinct (map (\<lambda>(i, x, h). (i, x)) ([(2, 3, 100), (3, 5, 120)] :: point list))" by simp
  have b: "list_all (\<lambda>(i, x, h). h \<noteq> FILL_VALUE) [(2, 3, 100), (3, 5, 120)]"
    by (simp add: FILL_VALUE_def)
  have c: "list_all (in_box 2 3 2 3) [(2, 3, 100), (3, 5, 120)]" by (simp add: in_box_def)
  have d: "list_all fits_int32 [(2, 3, 100), (3, 5, 120)]"
    by (simp add: fits_int32_def in_int32_def)
  from points_matrix_roundtrip[OF a b c d] a b c d show ?thesis by simp
qed


subsection \<open>Horizon: reading the lazy storages\<close>

lemma getters_new_horizon:
  "points_get d new_horizon = Inl RecursionError \<and> matrix_get d new_horizon = Inl RecursionError"
proof (induction d)
  case 0
  show ?case by simp
next
  case (Suc d)
  have "hz_points new_horizon = None" "hz_matrix new_horizon = None"
    by (simp_all add: new_horizon_def)
  with Suc show ?case by simp
qed

lemma recursion_limit_Suc: "\<exists>k. recursion_limit = Suc (Suc k)"
  unfolding recursion_limit_def by (rule exI[of _ 998]) simp

lemma points_of_Some:
  assumes "hz_points s = Some p"
  shows "points_of s = Inr (Some p, s)"
proof -
  obtain k where k: "recursion_limit = Suc (Suc k)" using recursion_limit_Suc by blast
  show ?thesis unfolding points_of_def k using assms by simp
qed


lemma matrix_of_points_only:
  assumes "hz_matrix s = None" "hz_points s = Some p"
  shows "matrix_of s =
     (case (hz_i_min s, hz_x_min s, hz_i_length s, hz_x_length s) of
        (Some i_min, Some x_min, Some i_length, Some x_length) \<Rightarrow>
           (case points_to_matrix p i_min x_min i_length x_length of
              Inl e \<Rightarrow> Inl e
            | Inr m \<Rightarrow> Inr (Some m, s \<lparr> hz_matrix := Some m \<rparr>))
      | _ \<Rightarrow> Inl TypeError)"
proof -
  obtain k where k: "recursion_limit = Suc (Suc k)" using recursion_limit_Suc by blast
  show ?thesis unfolding matrix_of_def k using assms by simp
qed


lemma from_points_empty: "from_points fld [] verify new_horizon = Inr empty_surface"
proof -
  have "reset_storage Matrix_storage (new_horizon \<lparr> hz_points := Some [] \<rparr>) = Inr empty_surface"
    by (simp add: reset_storage_def Let_def points_of_Some empty_surface_def new_horizon_def)
  then show ?thesis by (simp add: from_points_def split: prod.splits)
qed


lemma empty_surface_reads:
  "from_points fld [] verify new_horizon = Inr empty_surface \<and>
   points_of empty_surface = Inr (Some [], empty_surface) \<and>
   matrix_of empty_surface = Inl TypeError"
proof -
  have "matrix_of empty_surface = Inl TypeError"
    by (subst matrix_of_points_only[where p = "[]"])
       (simp_all add: empty_surface_def new_horizon_def)
  then show ?thesis
    using from_points_empty[of fld verify]
    by (simp add: points_of_Some empty_surface_def)
qed

text \<open>
  Claim C10. Reading \<open>points\<close> or \<open>matrix\<close> of a surface that holds no data is to return an
  empty structure and not to raise. On the surface constructed from a length-0 point array,
  \<open>points\<close> returns the empty array and changes nothing, but \<open>matrix\<close> raises a TypeError:
  \<open>reset_storage\<close> computes the bounding box only under the guard \<open>len(self.points) > 0\<close>, so
  \<open>i_length\<close> and \<open>x_length\<close> stay \<open>None\<close> and reach \<open>np.full\<close>.
\<close>

theorem empty_surface_matrix_raises:
  "case from_points small_field [] True new_horizon of
     Inl e \<Rightarrow> False
   | Inr s \<Rightarrow> points_of s = Inr (Some [], s) \<and> matrix_of s = Inl TypeError"
  by code_simp


subsection \<open>Horizon: transforms and the attribute cache\<close>

text \<open>
  Claim C3, evaluated on the code. A surface with the points (0, 0, 5) and (1, 1, 6) has its
  \<open>presence_matrix\<close> read, which caches it. \<open>ProcessingMixin.filter_points\<close> then removes the
  point (1, 1, 6), and \<open>thin_out\<close> removes both points; each resets the matrix but leaves
  the cached presence matrix, which still shows the removed cells. \<open>Horizon.filter_points\<close>,
  which goes through \<open>apply_to_points\<close>, empties the cache on the same input.
\<close>

theorem filter_leaves_stale_cache:
  "case from_points small_field [(0, 0, 5), (1, 1, 6)] True new_horizon of
     Inl e \<Rightarrow> False
   | Inr s \<Rightarrow>
      (case presence_matrix_of small_field s of
         Inl e \<Rightarrow> False
       | Inr (b, s1) \<Rightarrow>
           b = [[True, False], [False, True]] \<and>
           (case ProcessingMixin_filter_points (\<lambda>k m. m) [[False, False], [False, True]] 0 s1 of
              Inl e \<Rightarrow> False
            | Inr s2 \<Rightarrow> hz_points s2 = Some [(0, 0, 5)] \<and> hz_matrix s2 = None \<and>
                        hz_cache s2 = [(''presence_matrix'', BoolMatrix [[True, False], [False, True]])]) \<and>
           (case Horizon_thin_out (1, 1) 1 s1 of
              Inl e \<Rightarrow> False
            | Inr s3 \<Rightarrow> hz_points s3 = Some [] \<and> hz_matrix s3 = None \<and>
                        hz_cache s3 = [(''presence_matrix'', BoolMatrix [[True, False], [False, True]])]) \<and>
           (case Horizon_filter_points [[False, False], [False, True]] s1 of
              Inl e \<Rightarrow> False
            | Inr s4 \<Rightarrow> hz_points s4 = Some [(0, 0, 5)] \<and> hz_matrix s4 = None \<and> hz_cache s4 = []))"
  by code_simp

subsection \<open>Horizon: subtraction\<close>





lemma width_map [simp]: "width (map (map f) m) = width m"
  by (cases m) (simp_all add: width_def)























subsection \<open>LocationsPotentialContainer: what update_grid treats as already stored\<close>

text \<open>
  Claim C6. \<open>update_grid\<close> is to drop from the grid exactly the (location, potential) pairs that
  the container already holds, and to replace the stale potential of a location that comes back
  with a changed one. The source tests the two columns separately
  (\<open>np.in1d(grid_locations, self.locations) & np.in1d(grid.potential, self.potential)\<close>): a grid
  entry counts as stored as soon as its location occurs in some stored row and its potential in
  some stored row. After the container has taken \<open>(loc_of 0 0, 5)\<close> and \<open>(loc_of 0 4, 7)\<close>, a grid
  that brings \<open>loc_of 0 0\<close> with the changed potential \<open>7\<close>, a pair the container does not hold,
  is emptied, and the container keeps the stale potential \<open>5\<close>.
\<close>

theorem update_grid_drops_changed_potential:
  "(let c0 = LocationsPotentialContainer_init None None;
        (c1, g1) = update_grid c0 (grid_with [loc_of 0 0, loc_of 0 4] [5, 7]);
        (c2, g2) = update_grid c1 (grid_with [loc_of 0 0] [7])
    in zip (lpc_locations c1) (lpc_potential c1) = [(loc_of 0 0, 5), (loc_of 0 4, 7)] \<and>
       (loc_of 0 0, 7) \<notin> set (zip (lpc_locations c1) (lpc_potential c1)) \<and>
       eg_locations g2 = [] \<and> eg_potential g2 = [] \<and>
       zip (lpc_locations c2) (lpc_potential c2) = [(loc_of 0 0, 5), (loc_of 0 4, 7)])"
  by (simp add: update_grid_def LocationsPotentialContainer_init_def grid_with_def loc_of_def
                in1d_def select_not_def Let_def)


subsection \<open>ExtensionGrid: the prior check of compute_potential\<close>

text \<open>
  Claim C2. A candidate whose \<open>stride\<close>-wide prior band holds fewer than \<open>prior_threshold\<close>
  covered cells is to get potential \<open>-1\<close> and stay out of the selected locations. The source
  takes \<open>prior\<close> as the larger of \<open>sliced[:stride]\<close> and \<open>sliced[:-stride]\<close>; the second is the
  footprint without its last band, not a band. On \<open>gap_field\<close> with \<open>gap_horizon\<close>, crop shape
  \<open>(3, 3, 4)\<close>, \<open>stride = 1\<close>, \<open>threshold = 4\<close> and \<open>prior_threshold = 2\<close>, the candidate that goes
  up from the boundary point \<open>(1, 1)\<close> has the footprint \<open>[1, 4) \<times> [0, 3)\<close>; each of its four
  side bands holds at most one covered cell, yet it gets potential \<open>7\<close> and is selected in the
  modes \<open>up\<close>, \<open>best_for_each\<close> and \<open>best_for_all\<close>.
\<close>

theorem prior_check_admits_uncovered_bands:
  "side_bands 1 (slice2 1 4 0 3 (or2 (zero_traces gap_field) (hv_presence gap_horizon))) = [1, 0, 0, 1] \<and>
   compute_potential [(0, 1, 0, 3, 4, 3, 7)] (or2 (zero_traces gap_field) (hv_presence gap_horizon))
                     (3, 3, 4) 1 2 False
     = Inr ([7], or2 (zero_traces gap_field) (hv_presence gap_horizon)) \<and>
   (case ExtensionGrid_init gap_field gap_horizon (3, 3, 4) 1 64 1 4 2 False [0] ''up'' of
      Inl e \<Rightarrow> False
    | Inr g \<Rightarrow> zip (eg_locations g) (eg_potential g) =
        [(\<lparr> field_id = - 1, label_id = - 1, orientation = 0, i_start = 1, x_start = 0, h_start = 3,
            i_stop = 4, x_stop = 3, h_stop = 7 \<rparr>, 7),
         (\<lparr> field_id = - 1, label_id = - 1, orientation = 0, i_start = 2, x_start = 1, h_start = 3,
            i_stop = 5, x_stop = 4, h_stop = 7 \<rparr>, 5)]) \<and>
   (case ExtensionGrid_init gap_field gap_horizon (3, 3, 4) 1 64 1 4 2 True [0, 1, 2, 3]
           ''best_for_each'' of
      Inl e \<Rightarrow> False
    | Inr g \<Rightarrow>
        (\<lparr> field_id = - 1, label_id = - 1, orientation = 0, i_start = 1, x_start = 0, h_start = 3,
           i_stop = 4, x_stop = 3, h_stop = 7 \<rparr>, 7) \<in> set (zip (eg_locations g) (eg_potential g))) \<and>
   (case ExtensionGrid_init gap_field gap_horizon (3, 3, 4) 1 64 1 4 2 True [0, 1, 2, 3]
           ''best_for_all'' of
      Inl e \<Rightarrow> False
    | Inr g \<Rightarrow>
        (\<lparr> field_id = - 1, label_id = - 1, orientation = 0, i_start = 1, x_start = 0, h_start = 3,
           i_stop = 4, x_stop = 3, h_stop = 7 \<rparr>, 7) \<in> set (zip (eg_locations g) (eg_potential g)))"
  by code_simp

subsection \<open>Fault.from_mask: labelling in chunks\<close>

lemma label_mask_single_pass:
  "label_mask cube_mask None 1 = Some (Inr (map (\<lambda>(i, x, h). (i, x, h, 1)) cube_points))"
  by code_simp

lemma label_mask_overlap_one:
  "label_mask cube_mask (Some 4) 1 = Some (Inr (map (\<lambda>(i, x, h). (i, x, h, 1)) cube_points))"
  by code_simp

lemma label_mask_overlap_two:
  "label_mask cube_mask (Some 5) 2 = Some (Inl AttributeError)"
  by code_simp

lemma label_mask_overlap_three:
  "label_mask long_mask (Some 7) 3 = Some (Inl AttributeError)"
  by code_simp

lemma cube_component:
  assumes "label_mask array chunk_size overlap = Some (Inr (map (\<lambda>(i, x, h). (i, x, h, 1)) cube_points))"
  shows "from_mask array chunk_size None overlap = Some (Inr [(sqrt 2, cube_points)])"
  using assms
  by (simp add: from_mask_def cube_points_def label_column_def np_ptp_def argsort_def
                split_array_def)

text \<open>
  Claim C4. Labelling in chunks is to give the components of a single pass: one component for a
  seed that straddles the boundary of two chunks, for every chunk size and every overlap that is
  at least the extent of the component along axis 0. On \<open>cube_mask\<close> the single pass
  (\<open>chunk_size=None\<close>) and the chunks of size 4 with overlap 1 return the cube as the one
  component; the chunks of size 5 with overlap 2, planes 0 to 4 and planes 3 to 5, raise, and
  so do the chunks of size 7 with overlap 3 on \<open>long_mask\<close>, planes 0 to 6 and planes 4 to 7.
  Inside the loop the source reads the overlap of the processed part from
  \<open>start - overlap + 1\<close>, before it from \<open>start + item.shape[0] - overlap\<close>, the start of the next
  chunk: for an overlap above 1 the first takes the voxels of more planes, and the two label
  arrays no longer compare.
\<close>

theorem from_mask_chunks_raise:
  "from_mask cube_mask None None 1 = Some (Inr [(sqrt 2, cube_points)]) \<and>
   from_mask cube_mask (Some 4) None 1 = Some (Inr [(sqrt 2, cube_points)]) \<and>
   from_mask cube_mask (Some 5) None 2 = Some (Inl AttributeError) \<and>
   from_mask long_mask (Some 7) None 3 = Some (Inl AttributeError)"
  using cube_component [OF label_mask_single_pass] cube_component [OF label_mask_overlap_one]
        label_mask_overlap_two label_mask_overlap_three
  by (simp add: from_mask_def)

end
